theory Spec2Isabelle
  imports Complex_Main
begin

section \<open>JavaScript values\<close>

text \<open>
  The values of \<^verbatim>\<open>lib/server.js\<close> are dynamically typed. A number is an IEEE double:
  NaN, the two infinities, or a finite value. The code only tests and compares numbers
  (\<^verbatim>\<open>Number.isInteger\<close>, \<^verbatim>\<open>>= 0\<close>, \<^verbatim>\<open>isNaN\<close>) and never computes with them, so a
  finite number is kept as the rational it denotes (negative zero is the rational 0).
\<close>

datatype jsnum = NaN | PosInf | NegInf | Fin rat

datatype jsval =
    JUndefined
  | JNull
  | JBool bool
  | JNum jsnum
  | JStr string
  | JObject
  | JFunction nat

text \<open>ToBoolean, as used by \<^verbatim>\<open>if (x)\<close>, \<^verbatim>\<open>x && y\<close> and \<^verbatim>\<open>x ? a : b\<close>.\<close>

fun truthy :: "jsval \<Rightarrow> bool" where
  "truthy JUndefined = False"
| "truthy JNull = False"
| "truthy (JBool b) = b"
| "truthy (JNum NaN) = False"
| "truthy (JNum (Fin q)) = (q \<noteq> 0)"
| "truthy (JNum PosInf) = True"
| "truthy (JNum NegInf) = True"
| "truthy (JStr s) = (s \<noteq> [])"
| "truthy JObject = True"
| "truthy (JFunction f) = True"

section \<open>Instance options\<close>

text \<open>
  The fields of the Fastify \<^verbatim>\<open>options\<close> object that the version gate and the address
  reporter read. \<^verbatim>\<open>options.https\<close> is \<open>None\<close> when it is absent or falsy and
  \<open>Some h\<close> when it is an object, \<open>allowHTTP1 h\<close> being the value of its property.
\<close>

record https_options =
  allowHTTP1 :: jsval

record options =
  serverFactory :: jsval
  http2 :: jsval
  https :: "https_options option"

section \<open>Protocol-version gate\<close>

text \<open>
  \<^verbatim>\<open>compileValidateHTTPVersion\<close>: the \<^verbatim>\<open>Map\<close> of accepted labels is a partial map that
  \<^verbatim>\<open>map.set\<close> updates; \<^verbatim>\<open>map.has\<close> asks whether the key is bound. The result is the
  closure \<^verbatim>\<open>validateHTTPVersion\<close>.
\<close>

definition compileValidateHTTPVersion :: "options \<Rightarrow> string \<Rightarrow> bool" where
  "compileValidateHTTPVersion opts =
     (let bypass = truthy (serverFactory opts);
          m = (if truthy (http2 opts) then
                 (let m1 = Map.empty(''2.0'' \<mapsto> True) in
                  if (case https opts of None \<Rightarrow> False | Some h \<Rightarrow> allowHTTP1 h = JBool True)
                  then m1(''1.1'' \<mapsto> True, ''1.0'' \<mapsto> True)
                  else m1)
               else Map.empty(''1.1'' \<mapsto> True, ''1.0'' \<mapsto> True))
      in (\<lambda>httpVersion. bypass \<or> m httpVersion \<noteq> None))"

section \<open>Address reporter\<close>

text \<open>
  \<^verbatim>\<open>server.address()\<close> of a bound listener is a string for a pipe or unix socket and an
  object with \<^verbatim>\<open>address\<close> and \<^verbatim>\<open>port\<close> otherwise. The port is a non-negative integer;
  appending it to a string writes it in decimal.
\<close>

datatype bound_address = UnixPath string | Inet string nat

fun digit :: "nat \<Rightarrow> char" where
  "digit n = ''0123456789'' ! (n mod 10)"

fun decimal :: "nat \<Rightarrow> string" where
  "decimal n = (if n < 10 then [digit n] else decimal (n div 10) @ [digit n])"

declare decimal.simps [simp del]

text \<open>
  \<^verbatim>\<open>logServerAddress\<close> returns the formatted address and hands the resolver's text to the
  logger: the result is the pair of the returned address and the logged line. On a
  listener that is not bound \<^verbatim>\<open>server.address()\<close> is null and reading its property
  throws: the result is \<open>None\<close>.
\<close>

definition logServerAddress ::
  "options \<Rightarrow> bound_address option \<Rightarrow> (string \<Rightarrow> string) \<Rightarrow> (string \<times> string) option" where
  "logServerAddress kOptions srvAddress listenTextResolver =
     (case srvAddress of
        None \<Rightarrow> None
      | Some (UnixPath p) \<Rightarrow> Some (p, listenTextResolver p)
      | Some (Inet a prt) \<Rightarrow>
          (let address = (if CHR '':'' \<notin> set a then a @ '':'' @ decimal prt
                          else ''['' @ a @ '']:'' @ decimal prt);
               address' = (''http'' @ (if https kOptions \<noteq> None then ''s'' else '''') @ ''://'')
                            @ address
           in Some (address', listenTextResolver address')))"

definition defaultResolveServerListeningText :: "string \<Rightarrow> string" where
  "defaultResolveServerListeningText address = ''Server listening at '' @ address"

section \<open>Listen-argument normaliser\<close>

text \<open>
  \<^verbatim>\<open>Number(v)\<close>. The conversion of undefined, null, booleans and numbers is fixed by the
  language. The conversion of a string (the numeric-literal grammar with its rounding)
  and of an object (its \<^verbatim>\<open>valueOf\<close>/\<^verbatim>\<open>toString\<close>) belongs to the runtime and is the
  parameter \<open>conv\<close>: what is proved for every \<open>conv\<close> holds for the runtime's.
\<close>

fun Number :: "(jsval \<Rightarrow> jsnum) \<Rightarrow> jsval \<Rightarrow> jsnum" where
  "Number conv JUndefined = NaN"
| "Number conv JNull = Fin 0"
| "Number conv (JBool b) = Fin (if b then 1 else 0)"
| "Number conv (JNum n) = n"
| "Number conv v = conv v"

text \<open>
  The conversion that the examples below run with: the empty string is 0, a string of
  ASCII decimal digits is the integer it writes, and any other string, as well as every
  object, is NaN. It agrees with the runtime on the strings the examples use.
\<close>

fun digitsValue :: "nat \<Rightarrow> string \<Rightarrow> nat" where
  "digitsValue acc [] = acc"
| "digitsValue acc (c # cs) = digitsValue (10 * acc + (of_char c - 48)) cs"

fun decimalConv :: "jsval \<Rightarrow> jsnum" where
  "decimalConv (JStr s) =
     (if list_all (\<lambda>c. c \<in> set ''0123456789'') s
      then Fin (of_nat (digitsValue 0 s)) else NaN)"
| "decimalConv v = NaN"

text \<open>The global \<^verbatim>\<open>isNaN(v)\<close> converts first; \<^verbatim>\<open>Number.isInteger(v)\<close> does not.\<close>

definition isNaN :: "(jsval \<Rightarrow> jsnum) \<Rightarrow> jsval \<Rightarrow> bool" where
  "isNaN conv v = (Number conv v = NaN)"

fun isInteger :: "jsval \<Rightarrow> bool" where
  "isInteger (JNum (Fin q)) = (q = of_int \<lfloor>q\<rfloor>)"
| "isInteger v = False"

text \<open>\<^verbatim>\<open>n >= 0\<close> on a number.\<close>

fun geZero :: "jsnum \<Rightarrow> bool" where
  "geZero NaN = False"
| "geZero PosInf = True"
| "geZero NegInf = False"
| "geZero (Fin q) = (0 \<le> q)"

fun isString :: "jsval \<Rightarrow> bool" where
  "isString (JStr s) = True"
| "isString v = False"

text \<open>
  The closures that serve as completion callbacks: the caller's own function; the
  wrapper \<^verbatim>\<open>listen\<close> installs for host \<^verbatim>\<open>'localhost'\<close>, which captures the caller's
  function and the listen options; and the callback \<^verbatim>\<open>multipleBindings\<close> gives each
  secondary, which captures the counters of its invocation and the secondary server.
\<close>

record bind_target =
  port :: "jsval option"
  host :: "jsval option"
  path :: "jsval option"
  backlog :: "jsval option"
  listenTextResolver :: "(string \<Rightarrow> string) option"

datatype callback =
    UserCb nat
  | LocalhostCb jsval "bind_target"
  | SecondaryCb nat nat

text \<open>
  The listen options object: a property is \<open>None\<close> when the object does not have it and
  \<open>Some v\<close> when it has it with value \<open>v\<close> (possibly \<^verbatim>\<open>undefined\<close>). \<open>cb\<close> is \<open>None\<close>
  when it is \<^verbatim>\<open>undefined\<close>.
\<close>

record listenOptions = bind_target +
  cb :: "callback option"

definition readProp :: "jsval option \<Rightarrow> jsval" where
  "readProp f = (case f of None \<Rightarrow> JUndefined | Some v \<Rightarrow> v)"

definition normalizePort :: "(jsval \<Rightarrow> jsnum) \<Rightarrow> jsval \<Rightarrow> jsval" where
  "normalizePort conv firstArg =
     (let p = Number conv firstArg
      in if geZero p \<and> p \<noteq> NaN \<and> isInteger (JNum p) then JNum p else JNum (Fin 0))"

text \<open>
  The line \<^verbatim>\<open>const cb = typeof args[args.length - 1] === 'function' ? args.pop() : undefined\<close>
  of \<^verbatim>\<open>normalizeListenArgs\<close>, on a non-empty array: the callback and the array that is left.
\<close>

definition popCallback :: "jsval list \<Rightarrow> callback option \<times> jsval list" where
  "popCallback args0 =
     (case last args0 of
        JFunction f \<Rightarrow> (Some (UserCb f), butlast args0)
      | _ \<Rightarrow> (None, args0))"

text \<open>
  \<^verbatim>\<open>normalizeListenArgs\<close>. Reading \<^verbatim>\<open>args[0]\<close> or the last element of an empty array
  gives \<^verbatim>\<open>undefined\<close>.
\<close>

definition normalizeListenArgs :: "(jsval \<Rightarrow> jsnum) \<Rightarrow> jsval list \<Rightarrow> listenOptions" where
  "normalizeListenArgs conv args0 =
     (if length args0 = 0 then
        \<lparr>port = Some (JNum (Fin 0)), host = Some (JStr ''localhost''), path = None,
         backlog = None, listenTextResolver = None, cb = None\<rparr>
      else
        let (cb0, args) = popCallback args0;
            firstArg = (case args of [] \<Rightarrow> JUndefined | x # _ \<Rightarrow> x);
            argsLength = length args;
            lastArg = (if args = [] then JUndefined else last args)
        in if isString firstArg \<and> isNaN conv firstArg then
             \<lparr>port = None, host = None, path = Some firstArg,
              backlog = Some (if argsLength > 1 then lastArg else JUndefined),
              listenTextResolver = None, cb = cb0\<rparr>
           else
             \<lparr>port = Some (if argsLength \<ge> 1 \<and> isInteger firstArg then firstArg
                           else normalizePort conv firstArg),
              host = Some (if argsLength \<ge> 2 \<and> truthy (args ! 1) then args ! 1
                           else JStr ''localhost''),
              path = None,
              backlog = Some (if argsLength \<ge> 3 then args ! 2 else JUndefined),
              listenTextResolver = None, cb = cb0\<rparr>)"

text \<open>
  What the specification says of a normalised request: a property is set when the
  object has it with a value other than \<^verbatim>\<open>undefined\<close>; a value is a non-negative
  integer when it is a finite number that is whole and not below 0.
\<close>

definition isSet :: "jsval option \<Rightarrow> bool" where
  "isSet f = (readProp f \<noteq> JUndefined)"

definition nonNegInteger :: "jsval \<Rightarrow> bool" where
  "nonNegInteger v = (case v of JNum n \<Rightarrow> isInteger v \<and> geZero n | _ \<Rightarrow> False)"

definition exactlyOneTarget :: "listenOptions \<Rightarrow> bool" where
  "exactlyOneTarget r =
     ((isSet (path r) \<and> \<not> isSet (port r) \<and> \<not> isSet (host r))
      \<or> (isSet (port r) \<and> isSet (host r) \<and> \<not> isSet (path r)))"

definition firstOf :: "jsval list \<Rightarrow> jsval" where
  "firstOf xs = (case xs of [] \<Rightarrow> JUndefined | x # _ \<Rightarrow> x)"

definition negInteger :: "jsval \<Rightarrow> bool" where
  "negInteger v = (isInteger v \<and> \<not> nonNegInteger v)"

text \<open>
  The invariant as the specification words it: exactly one of {path} or {port, host} is
  set, backlog is unset or a non-negative integer, and the port is a non-negative integer.
\<close>

definition requestAsSpecified :: "listenOptions \<Rightarrow> bool" where
  "requestAsSpecified r =
     (exactlyOneTarget r
      \<and> (\<not> isSet (backlog r) \<or> nonNegInteger (readProp (backlog r)))
      \<and> (isSet (port r) \<longrightarrow> nonNegInteger (readProp (port r))))"

section \<open>Listener state\<close>

text \<open>
  Errors: the two of \<^verbatim>\<open>./errors\<close> that this file raises, and errors that reach it from
  outside (a bind error of the operating system, an error of the readiness gate, a
  failed lookup).
\<close>

datatype error =
    FST_ERR_REOPENED_CLOSE_SERVER
  | FST_ERR_REOPENED_SERVER
  | External string

text \<open>
  \<^verbatim>\<open>createServer\<close> makes one server, the primary; \<^verbatim>\<open>multipleBindings\<close> makes the
  secondaries, numbered in the order of their creation.
\<close>

datatype srv = MainServer | SecondaryServer nat

text \<open>
  The \<^verbatim>\<open>onListen\<close> closures of \<^verbatim>\<open>listen\<close>: the callback form captures the caller's
  \<^verbatim>\<open>cb\<close> and the address, the promise form the promise it resolves and the address.
\<close>

datatype onlisten =
    OnListenCb jsval "string option"
  | OnListenPromise nat "string option"

text \<open>
  Event listeners, as closures. \<open>Wrap\<close> is \<^verbatim>\<open>wrap\<close> of \<^verbatim>\<open>listenCallback\<close>;
  \<open>ErrEventHandler\<close> and \<open>Listened\<close> are the two arrows of \<^verbatim>\<open>listenPromise\<close> (the second
  knows the first, to remove it); \<open>CloseSecondary\<close> is \<^verbatim>\<open>closeSecondary\<close>;
  \<open>EmitUpgrade\<close> is \<^verbatim>\<open>mainServer.emit.bind(mainServer, 'upgrade')\<close>. The leading number
  of the first two is the identity of the closure, by which \<^verbatim>\<open>removeListener\<close> finds it.
\<close>

datatype handler =
    Wrap nat srv listenOptions
  | ErrEventHandler nat nat
  | Listened nat srv nat listenOptions
  | CloseSecondary nat
  | EmitUpgrade

fun closureId :: "handler \<Rightarrow> nat option" where
  "closureId (Wrap n sv lo) = Some n"
| "closureId (ErrEventHandler n p) = Some n"
| "closureId h = None"

text \<open>\<^verbatim>\<open>wrap\<close> and \<^verbatim>\<open>errEventHandler\<close> are registered with \<^verbatim>\<open>once\<close>, the others with \<^verbatim>\<open>on\<close>.\<close>

fun isOnce :: "handler \<Rightarrow> bool" where
  "isOnce (Wrap n sv lo) = True"
| "isOnce (ErrEventHandler n p) = True"
| "isOnce h = False"

text \<open>
  A \<^verbatim>\<open>net.Server\<close> as this file uses it: what \<^verbatim>\<open>address()\<close> returns (\<open>None\<close> until a
  bind has succeeded), its listeners by event (the \<^verbatim>\<open>listening\<close> listeners are those
  that \<^verbatim>\<open>server.listen(options, callback)\<close> registers, each for one event), and whether
  \<^verbatim>\<open>unref\<close> has been replaced by the function that also emits \<^verbatim>\<open>'unref'\<close>.
\<close>

record net_server =
  srvAddress :: "bound_address option"
  errorListeners :: "handler list"
  listeningListeners :: "handler list"
  closeListeners :: "handler list"
  unrefListeners :: "handler list"
  upgradeListeners :: "handler list"
  unrefPatched :: bool

definition newServer :: net_server where
  "newServer = \<lparr>srvAddress = None, errorListeners = [], listeningListeners = [],
     closeListeners = [], unrefListeners = [], upgradeListeners = [], unrefPatched = False\<rparr>"

text \<open>
  What the outside can observe, in the order it happens: a call of the caller's
  callback with its two arguments, a call of \<^verbatim>\<open>resolve\<close> or \<^verbatim>\<open>reject\<close> of the promise
  that \<^verbatim>\<open>listen\<close> returned, a call of \<^verbatim>\<open>server.listen\<close> (a bind attempt), of
  \<^verbatim>\<open>dns.lookup\<close>, of \<^verbatim>\<open>log.info\<close>, of \<^verbatim>\<open>server.close\<close>, a type error that nothing
  catches, an exception of \<^verbatim>\<open>server.listen\<close> that nothing catches, and an \<^verbatim>\<open>'error'\<close>
  event that no listener takes.
\<close>

datatype effect =
    CallUser nat "error option" "string option"
  | Resolve nat "string option"
  | Reject nat error
  | ListenCall srv listenOptions
  | Lookup jsval
  | LogInfo string
  | CloseCall srv
  | Throw
  | Thrown error
  | Unhandled error

text \<open>
  The promise that the promise form returns: \<open>race\<close> is the outcome of
  \<^verbatim>\<open>listenPromise\<close>'s promise (\<open>None\<close> while pending); \<open>chained\<close> holds the listen options
  when \<^verbatim>\<open>listen\<close> chained the \<^verbatim>\<open>multipleBindings\<close> step with \<^verbatim>\<open>then\<close>; \<open>returned\<close> is
  the outcome of the promise given to the caller.
\<close>

record promise =
  race :: "(error + string option) option"
  chained :: "bind_target option"
  returned :: "(error + string option) option"

text \<open>
  The Fastify instance with what hangs on it: the two flags of \<^verbatim>\<open>this[kState]\<close>,
  \<^verbatim>\<open>this[kOptions]\<close>, \<^verbatim>\<open>this[kServerBindings]\<close>, the servers, the lookups that
  \<^verbatim>\<open>multipleBindings\<close> has issued (host, listen options, \<^verbatim>\<open>onListen\<close>), the counters
  \<^verbatim>\<open>binding\<close> and \<^verbatim>\<open>binded\<close> of each lookup callback that ran with its \<^verbatim>\<open>onListen\<close>,
  the promises, the next closure identity, whether an exception escaped, and the trace.
\<close>

record fastify =
  listening :: bool
  closing :: bool
  kOptions :: options
  kServerBindings :: "nat list"
  mainServer :: net_server
  secondaries :: "net_server list"
  lookups :: "(jsval \<times> bind_target \<times> onlisten) list"
  counters :: "(nat \<times> nat \<times> onlisten) list"
  promises :: "promise list"
  nextClosure :: nat
  crashed :: bool
  trace :: "effect list"

text \<open>
  \<^verbatim>\<open>server.listen\<close> throws when it refuses the call on the spot (a port out of range, a
  server that is listening already); otherwise it starts the bind, whose outcome comes
  later as an event. Whether it throws is the runtime's decision: the parameter \<open>rt\<close> of
  the functions below gives the exception, if any, for the state of the instance, the
  server and the options of the call. What is proved for every \<open>rt\<close> holds for the
  runtime's.
\<close>

type_synonym runtime = "fastify \<Rightarrow> srv \<Rightarrow> listenOptions \<Rightarrow> error option"

definition getSrv :: "fastify \<Rightarrow> srv \<Rightarrow> net_server" where
  "getSrv s sv = (case sv of MainServer \<Rightarrow> mainServer s | SecondaryServer k \<Rightarrow> secondaries s ! k)"

definition updSrv :: "srv \<Rightarrow> (net_server \<Rightarrow> net_server) \<Rightarrow> fastify \<Rightarrow> fastify" where
  "updSrv sv f s =
     (case sv of
        MainServer \<Rightarrow> s\<lparr>mainServer := f (mainServer s)\<rparr>
      | SecondaryServer k \<Rightarrow> s\<lparr>secondaries := (secondaries s)[k := f (secondaries s ! k)]\<rparr>)"

definition emitEffect :: "effect \<Rightarrow> fastify \<Rightarrow> fastify" where
  "emitEffect e s = s\<lparr>trace := trace s @ [e]\<rparr>"

definition throwTypeError :: "fastify \<Rightarrow> fastify" where
  "throwTypeError s = emitEffect Throw (s\<lparr>crashed := True\<rparr>)"

text \<open>\<^verbatim>\<open>emitter.removeListener(event, f)\<close>, for a closure registered at most once.\<close>

definition removeListener :: "nat \<Rightarrow> handler list \<Rightarrow> handler list" where
  "removeListener n hs = filter (\<lambda>h. closureId h \<noteq> Some n) hs"

section \<open>Completion callbacks\<close>

text \<open>The caller's \<^verbatim>\<open>cb(err, address)\<close>; calling a value that is no function throws.\<close>

definition callUser :: "jsval \<Rightarrow> error option \<Rightarrow> string option \<Rightarrow> fastify \<Rightarrow> fastify" where
  "callUser f err adr s =
     (case f of JFunction n \<Rightarrow> emitEffect (CallUser n err adr) s | _ \<Rightarrow> throwTypeError s)"

text \<open>
  \<^verbatim>\<open>resolve(address)\<close> of the promise that \<^verbatim>\<open>listen\<close> returned in the promise form when
  it chained \<^verbatim>\<open>multipleBindings\<close>: the call is observed, and it settles the promise only
  if the promise is pending.
\<close>

definition settleReturned :: "nat \<Rightarrow> (error + string option) \<Rightarrow> fastify \<Rightarrow> fastify" where
  "settleReturned p r s =
     (let s1 = emitEffect (case r of Inl e \<Rightarrow> Reject p e | Inr a \<Rightarrow> Resolve p a) s
      in if returned (promises s1 ! p) = None
         then s1\<lparr>promises := (promises s1)[p := (promises s1 ! p)\<lparr>returned := Some r\<rparr>]\<rparr>
         else s1)"

text \<open>
  The two \<^verbatim>\<open>onListen\<close> arrows of \<^verbatim>\<open>listen\<close>:
  \<^verbatim>\<open>() => { this[kState].listening = true; cb(null, address) }\<close> and
  \<^verbatim>\<open>() => { this[kState].listening = true; resolve(address) }\<close>.
\<close>

definition onListen :: "onlisten \<Rightarrow> fastify \<Rightarrow> fastify" where
  "onListen ol s =
     (case ol of
        OnListenCb f adr \<Rightarrow> callUser f None adr (s\<lparr>listening := True\<rparr>)
      | OnListenPromise p adr \<Rightarrow> settleReturned p (Inr adr) (s\<lparr>listening := True\<rparr>))"

text \<open>
  The \<^verbatim>\<open>cb\<close> that \<^verbatim>\<open>multipleBindings\<close> gives to secondary \<open>k\<close>, in the run \<open>m\<close> of the
  lookup callback: \<^verbatim>\<open>binded++\<close>, push the server if there is no error, and call
  \<^verbatim>\<open>onListen\<close> when \<^verbatim>\<open>binded === binding\<close>.
\<close>

definition secondaryCb :: "nat \<Rightarrow> nat \<Rightarrow> error option \<Rightarrow> fastify \<Rightarrow> fastify" where
  "secondaryCb m k ignoreErr s =
     (case counters s ! m of (binding, binded, ol) \<Rightarrow>
        let s1 = s\<lparr>counters := (counters s)[m := (binding, binded + 1, ol)]\<rparr>;
            s2 = (if ignoreErr = None then s1\<lparr>kServerBindings := kServerBindings s1 @ [k]\<rparr> else s1)
        in if binded + 1 = binding then onListen ol s2 else s2)"

text \<open>
  \<^verbatim>\<open>multipleBindings\<close> up to the call of \<^verbatim>\<open>dns.lookup\<close>: the flag is cleared and the
  lookup is issued; its callback runs later, as \<open>lookupCallback\<close> below.
\<close>

definition multipleBindings :: "bind_target \<Rightarrow> onlisten \<Rightarrow> fastify \<Rightarrow> fastify" where
  "multipleBindings lo ol s =
     emitEffect (Lookup (readProp (host lo)))
       (s\<lparr>listening := False, lookups := lookups s @ [(readProp (host lo), lo, ol)]\<rparr>)"

text \<open>
  \<^verbatim>\<open>listenOptions.cb(err, address)\<close>. The wrapper that \<^verbatim>\<open>listen\<close> installs for host
  \<^verbatim>\<open>'localhost'\<close> passes an error on to the caller's \<^verbatim>\<open>cb\<close> and otherwise starts
  \<^verbatim>\<open>multipleBindings\<close>. Calling \<^verbatim>\<open>undefined\<close> throws.
\<close>

definition callCb :: "callback option \<Rightarrow> error option \<Rightarrow> string option \<Rightarrow> fastify \<Rightarrow> fastify" where
  "callCb c err adr s =
     (case c of
        None \<Rightarrow> throwTypeError s
      | Some (UserCb n) \<Rightarrow> callUser (JFunction n) err adr s
      | Some (LocalhostCb f lo) \<Rightarrow>
          (if err \<noteq> None then callUser f err adr s
           else multipleBindings lo (OnListenCb f adr) s)
      | Some (SecondaryCb m k) \<Rightarrow> secondaryCb m k err s)"

section \<open>Callback form\<close>

text \<open>
  \<^verbatim>\<open>wrap\<close> of \<^verbatim>\<open>listenCallback\<close>, the closure \<open>n\<close> for server \<open>sv\<close> and options \<open>lo\<close>.
\<close>

definition resolverOf :: "listenOptions \<Rightarrow> string \<Rightarrow> string" where
  "resolverOf lo = (case listenTextResolver lo of
                      None \<Rightarrow> defaultResolveServerListeningText | Some r \<Rightarrow> r)"

definition wrap :: "nat \<Rightarrow> srv \<Rightarrow> listenOptions \<Rightarrow> error option \<Rightarrow> fastify \<Rightarrow> fastify" where
  "wrap n sv lo err s =
     (let s1 = updSrv sv (\<lambda>r. r\<lparr>errorListeners := removeListener n (errorListeners r)\<rparr>) s
      in case err of
           None \<Rightarrow>
             (case logServerAddress (kOptions s1) (srvAddress (getSrv s1 sv)) (resolverOf lo) of
                None \<Rightarrow> throwTypeError s1
              | Some (adr, line) \<Rightarrow> callCb (cb lo) None (Some adr) (emitEffect (LogInfo line) s1))
         | Some e \<Rightarrow> callCb (cb lo) (Some e) None (s1\<lparr>listening := False\<rparr>))"

text \<open>
  The function that \<^verbatim>\<open>listenCallback(server, listenOptions)\<close> returns, applied to
  \<open>err\<close>. \<^verbatim>\<open>wrap\<close> is registered for \<^verbatim>\<open>'error'\<close> first. When
  \<^verbatim>\<open>server.listen(listenOptions, wrap)\<close> throws, the exception leaves the function: the
  flag is not set, \<^verbatim>\<open>listenOptions.cb\<close> is not called and \<^verbatim>\<open>wrap\<close> stays registered.
  Otherwise the call starts the bind and registers \<^verbatim>\<open>wrap\<close> for the \<^verbatim>\<open>'listening'\<close>
  event, and the flag is set.
\<close>

definition listenCallback ::
  "runtime \<Rightarrow> srv \<Rightarrow> listenOptions \<Rightarrow> error option \<Rightarrow> fastify \<Rightarrow> fastify" where
  "listenCallback rt sv lo err s =
     (if err \<noteq> None then callCb (cb lo) err None s
      else if listening s \<and> closing s then
        callCb (cb lo) (Some FST_ERR_REOPENED_CLOSE_SERVER) None s
      else if listening s then
        callCb (cb lo) (Some FST_ERR_REOPENED_SERVER) None s
      else
        let n = nextClosure s;
            s1 = updSrv sv (\<lambda>r. r\<lparr>errorListeners := errorListeners r @ [Wrap n sv lo]\<rparr>)
                   (s\<lparr>nextClosure := n + 1\<rparr>)
        in case rt s sv lo of
             Some e \<Rightarrow> emitEffect (Thrown e) (s1\<lparr>crashed := True\<rparr>)
           | None \<Rightarrow>
               let s2 = updSrv sv (\<lambda>r. r\<lparr>listeningListeners := listeningListeners r @ [Wrap n sv lo]\<rparr>)
                          (emitEffect (ListenCall sv lo) s1)
               in s2\<lparr>listening := True\<rparr>)"

section \<open>Promise form\<close>

text \<open>
  Settling the promise of \<^verbatim>\<open>listenPromise\<close>: a second settlement is ignored. The
  promise that \<^verbatim>\<open>listen\<close> returns follows it: a rejection passes through; a fulfilment
  passes through when nothing is chained and otherwise starts \<^verbatim>\<open>multipleBindings\<close>,
  whose \<^verbatim>\<open>onListen\<close> resolves the returned promise.
\<close>

definition settleRace :: "nat \<Rightarrow> (error + string option) \<Rightarrow> fastify \<Rightarrow> fastify" where
  "settleRace p r s =
     (if race (promises s ! p) \<noteq> None then s
      else
        let s1 = s\<lparr>promises := (promises s)[p := (promises s ! p)\<lparr>race := Some r\<rparr>]\<rparr>
        in case r of
             Inl e \<Rightarrow> settleReturned p (Inl e) s1
           | Inr adr \<Rightarrow>
               (case chained (promises s1 ! p) of
                  None \<Rightarrow> settleReturned p (Inr adr) s1
                | Some lo \<Rightarrow> multipleBindings lo (OnListenPromise p adr) s1))"

text \<open>
  \<^verbatim>\<open>listenPromise\<close> up to \<^verbatim>\<open>this.ready()\<close>: the new promise \<open>p\<close>, rejected at once when
  the guards fail. \<open>ch\<close> is what \<^verbatim>\<open>listen\<close> chains.
\<close>

definition listenPromise ::
  "srv \<Rightarrow> listenOptions \<Rightarrow> bind_target option \<Rightarrow> fastify \<Rightarrow> fastify \<times> nat" where
  "listenPromise sv lo ch s =
     (let p = length (promises s);
          s0 = s\<lparr>promises := promises s @ [\<lparr>race = None, chained = ch, returned = None\<rparr>]\<rparr>
      in if listening s0 \<and> closing s0 then (settleRace p (Inl FST_ERR_REOPENED_CLOSE_SERVER) s0, p)
         else if listening s0 then (settleRace p (Inl FST_ERR_REOPENED_SERVER) s0, p)
         else (s0, p))"

text \<open>
  The continuation of \<^verbatim>\<open>this.ready()\<close> in \<^verbatim>\<open>listenPromise\<close>. When the readiness gate
  rejects, the promise rejects with its error. Otherwise \<^verbatim>\<open>errEventHandler\<close> (closure
  \<open>n\<close>) is registered. When \<^verbatim>\<open>server.listen\<close> throws inside the executor of the
  second promise, that promise and with it the race reject with the exception: the flag
  is not set (\<^verbatim>\<open>we set it afterwards because listen can throw\<close>) and
  \<^verbatim>\<open>errEventHandler\<close> stays registered. Otherwise the bind is started and the flag is set.
\<close>

definition listenPromiseReady ::
  "runtime \<Rightarrow> nat \<Rightarrow> srv \<Rightarrow> listenOptions \<Rightarrow> error option \<Rightarrow> fastify \<Rightarrow> fastify" where
  "listenPromiseReady rt p sv lo err s =
     (case err of
        Some e \<Rightarrow> settleRace p (Inl e) s
      | None \<Rightarrow>
          let n = nextClosure s;
              s1 = updSrv sv (\<lambda>r. r\<lparr>errorListeners := errorListeners r @ [ErrEventHandler n p]\<rparr>)
                     (s\<lparr>nextClosure := n + 1\<rparr>)
          in case rt s sv lo of
               Some e \<Rightarrow> settleRace p (Inl e) s1
             | None \<Rightarrow>
                 let s2 = updSrv sv (\<lambda>r. r\<lparr>listeningListeners := listeningListeners r @ [Listened n sv p lo]\<rparr>)
                            (emitEffect (ListenCall sv lo) s1)
                 in s2\<lparr>listening := True\<rparr>)"

definition errEventHandler :: "nat \<Rightarrow> error \<Rightarrow> fastify \<Rightarrow> fastify" where
  "errEventHandler p e s = settleRace p (Inl e) (s\<lparr>listening := False\<rparr>)"

text \<open>The callback that \<^verbatim>\<open>listenPromise\<close> passes to \<^verbatim>\<open>server.listen\<close>.\<close>

definition listened :: "nat \<Rightarrow> srv \<Rightarrow> nat \<Rightarrow> listenOptions \<Rightarrow> fastify \<Rightarrow> fastify" where
  "listened n sv p lo s =
     (let s1 = updSrv sv (\<lambda>r. r\<lparr>errorListeners := removeListener n (errorListeners r)\<rparr>) s
      in case logServerAddress (kOptions s1) (srvAddress (getSrv s1 sv)) (resolverOf lo) of
           None \<Rightarrow> throwTypeError s1
         | Some (adr, line) \<Rightarrow> settleRace p (Inr (Some adr)) (emitEffect (LogInfo line) s1))"

section \<open>Events\<close>

text \<open>\<^verbatim>\<open>closeSecondary\<close>: \<^verbatim>\<open>secondaryServer.close(() => {})\<close>.\<close>

definition closeSecondary :: "nat \<Rightarrow> fastify \<Rightarrow> fastify" where
  "closeSecondary k s = emitEffect (CloseCall (SecondaryServer k)) s"

fun handleError :: "handler \<Rightarrow> error \<Rightarrow> fastify \<Rightarrow> fastify" where
  "handleError (Wrap n sv lo) e s = wrap n sv lo (Some e) s"
| "handleError (ErrEventHandler n p) e s = errEventHandler p e s"
| "handleError (CloseSecondary k) e s = closeSecondary k s"
| "handleError h e s = s"

fun handleListening :: "handler \<Rightarrow> fastify \<Rightarrow> fastify" where
  "handleListening (Wrap n sv lo) s = wrap n sv lo None s"
| "handleListening (Listened n sv p lo) s = listened n sv p lo s"
| "handleListening (CloseSecondary k) s = closeSecondary k s"
| "handleListening h s = s"

fun handlePlain :: "handler \<Rightarrow> fastify \<Rightarrow> fastify" where
  "handlePlain (CloseSecondary k) s = closeSecondary k s"
| "handlePlain h s = s"

text \<open>
  \<^verbatim>\<open>emitter.emit\<close>: the listeners registered at that moment run in the order of their
  registration, a \<^verbatim>\<open>once\<close> listener leaving the list; an exception that escapes one
  stops the rest. An \<^verbatim>\<open>'error'\<close> event without a listener is thrown.
\<close>

definition runAll :: "(handler \<Rightarrow> fastify \<Rightarrow> fastify) \<Rightarrow> handler list \<Rightarrow> fastify \<Rightarrow> fastify" where
  "runAll run hs s = foldl (\<lambda>t h. if crashed t then t else run h t) s hs"

definition emitError :: "srv \<Rightarrow> error \<Rightarrow> fastify \<Rightarrow> fastify" where
  "emitError sv e s =
     (let hs = errorListeners (getSrv s sv)
      in if hs = [] then emitEffect (Unhandled e) (s\<lparr>crashed := True\<rparr>)
         else runAll (\<lambda>h. handleError h e) hs
                (updSrv sv (\<lambda>r. r\<lparr>errorListeners := filter (\<lambda>h. \<not> isOnce h) (errorListeners r)\<rparr>) s))"

definition emitListening :: "srv \<Rightarrow> fastify \<Rightarrow> fastify" where
  "emitListening sv s =
     runAll handleListening (listeningListeners (getSrv s sv))
       (updSrv sv (\<lambda>r. r\<lparr>listeningListeners := []\<rparr>) s)"

definition emitClose :: "srv \<Rightarrow> fastify \<Rightarrow> fastify" where
  "emitClose sv s = runAll handlePlain (closeListeners (getSrv s sv)) s"

definition emitUnref :: "srv \<Rightarrow> fastify \<Rightarrow> fastify" where
  "emitUnref sv s = runAll handlePlain (unrefListeners (getSrv s sv)) s"

text \<open>
  What the outside does to a server: the operating system completes a bind that
  \<^verbatim>\<open>server.listen\<close> started, with the bound address or with an error; and somebody calls
  \<^verbatim>\<open>mainServer.unref()\<close>, which emits \<^verbatim>\<open>'unref'\<close> once \<^verbatim>\<open>multipleBindings\<close> has replaced it.
\<close>

definition bindSucceeded :: "srv \<Rightarrow> bound_address \<Rightarrow> fastify \<Rightarrow> fastify" where
  "bindSucceeded sv a s = emitListening sv (updSrv sv (\<lambda>r. r\<lparr>srvAddress := Some a\<rparr>) s)"

definition bindFailed :: "srv \<Rightarrow> error \<Rightarrow> fastify \<Rightarrow> fastify" where
  "bindFailed sv e s = emitError sv e s"

definition unref :: "fastify \<Rightarrow> fastify" where
  "unref s = (if unrefPatched (mainServer s) then emitUnref MainServer s else s)"

section \<open>Dual-stack binder\<close>

text \<open>
  \<^verbatim>\<open>primaryAddress.address\<close> and \<^verbatim>\<open>primaryAddress.port\<close>: a string (a pipe path) has
  neither property.
\<close>

fun addressOf :: "bound_address \<Rightarrow> jsval" where
  "addressOf (Inet a prt) = JStr a"
| "addressOf (UnixPath q) = JUndefined"

fun portOf :: "bound_address \<Rightarrow> jsval" where
  "portOf (Inet a prt) = JNum (Fin (of_nat prt))"
| "portOf (UnixPath q) = JUndefined"

text \<open>
  The body of the loop \<^verbatim>\<open>for (const adr of addresses)\<close> for one address that differs
  from the primary's, in run \<open>m\<close> of the lookup callback: \<^verbatim>\<open>binding++\<close>, the options of
  the secondary, \<^verbatim>\<open>getServerInstance\<close> (a new server; its timeouts are not modelled), the
  four listeners, and the call of the function that \<^verbatim>\<open>listenCallback\<close> returns.
\<close>

definition secondaryOpts :: "bind_target \<Rightarrow> string \<Rightarrow> jsval \<Rightarrow> nat \<Rightarrow> nat \<Rightarrow> listenOptions" where
  "secondaryOpts lo adr pp m k =
     \<lparr>port = Some pp, host = Some (JStr adr), path = path lo, backlog = backlog lo,
      listenTextResolver = listenTextResolver lo, cb = Some (SecondaryCb m k)\<rparr>"

definition bindSecondary ::
  "runtime \<Rightarrow> nat \<Rightarrow> bind_target \<Rightarrow> jsval \<Rightarrow> string \<Rightarrow> fastify \<Rightarrow> fastify" where
  "bindSecondary rt m lo pp adr s =
     (case counters s ! m of (binding, binded, ol) \<Rightarrow>
        let s1 = s\<lparr>counters := (counters s)[m := (binding + 1, binded, ol)]\<rparr>;
            k = length (secondaries s1);
            s2 = s1\<lparr>secondaries := secondaries s1 @ [newServer\<lparr>upgradeListeners := [EmitUpgrade]\<rparr>]\<rparr>;
            s3 = updSrv MainServer
                   (\<lambda>r. r\<lparr>unrefListeners := unrefListeners r @ [CloseSecondary k],
                          closeListeners := closeListeners r @ [CloseSecondary k],
                          errorListeners := errorListeners r @ [CloseSecondary k]\<rparr>) s2
        in listenCallback rt (SecondaryServer k) (secondaryOpts lo adr pp m k) None s3)"

fun bindSecondaries ::
  "runtime \<Rightarrow> nat \<Rightarrow> bind_target \<Rightarrow> jsval \<Rightarrow> jsval \<Rightarrow> string list \<Rightarrow> fastify \<Rightarrow> fastify" where
  "bindSecondaries rt m lo pa pp [] s = s"
| "bindSecondaries rt m lo pa pp (adr # rest) s =
     (if crashed s then s
      else if JStr adr \<noteq> pa
           then bindSecondaries rt m lo pa pp rest (bindSecondary rt m lo pp adr s)
      else bindSecondaries rt m lo pa pp rest s)"

text \<open>
  The callback of \<^verbatim>\<open>dns.lookup\<close> for lookup \<open>i\<close>, with the error or the resolved
  addresses. \<^verbatim>\<open>mainServer.address()\<close> is null on a server that is not bound, and reading
  its property in the first round of the loop throws.
\<close>

definition lookupCallback ::
  "runtime \<Rightarrow> nat \<Rightarrow> (error + string list) \<Rightarrow> fastify \<Rightarrow> fastify" where
  "lookupCallback rt i res s =
     (case lookups s ! i of (h, lo, ol) \<Rightarrow>
        (case res of
           Inl dnsErr \<Rightarrow> onListen ol s
         | Inr addresses \<Rightarrow>
             let m = length (counters s);
                 s1 = s\<lparr>counters := counters s @ [(0, 0, ol)]\<rparr>
             in case srvAddress (mainServer s1) of
                  None \<Rightarrow> if addresses = [] then onListen ol s1 else throwTypeError s1
                | Some pa \<Rightarrow>
                    let s2 = bindSecondaries rt m lo (addressOf pa) (portOf pa) addresses s1
                    in if crashed s2 then s2
                       else if fst (counters s2 ! m) = 0 then onListen ol s2
                       else updSrv MainServer (\<lambda>r. r\<lparr>unrefPatched := True\<rparr>) s2))"

section \<open>The listen entry point\<close>

text \<open>
  \<^verbatim>\<open>listen\<close> from the line \<^verbatim>\<open>let host\<close> on, for the options object \<open>lo\<close> and the local
  \<^verbatim>\<open>cb\<close> that its first lines computed from the arguments. The result says what the
  readiness gate will continue with: in the callback form the function that
  \<^verbatim>\<open>listenCallback\<close> returned, in the promise form the continuation of \<^verbatim>\<open>listenPromise\<close>
  for promise \<open>p\<close>, unless the guards have rejected the promise already.
\<close>

datatype pending =
    AwaitReadyCallback listenOptions
  | AwaitReadyPromise nat listenOptions
  | RejectedPromise nat

definition nullish :: "jsval \<Rightarrow> bool" where
  "nullish v = (v = JUndefined \<or> v = JNull)"

definition targetOf :: "listenOptions \<Rightarrow> bind_target" where
  "targetOf lo = \<lparr>port = port lo, host = host lo, path = path lo, backlog = backlog lo,
                  listenTextResolver = listenTextResolver lo\<rparr>"

definition listenHost :: "listenOptions \<Rightarrow> jsval" where
  "listenHost lo =
     (if nullish (readProp (path lo)) then
        (if nullish (readProp (host lo)) then JStr ''localhost'' else readProp (host lo))
      else readProp (host lo))"

text \<open>
  The options object after the lines from \<^verbatim>\<open>let host\<close> to the end of
  \<^verbatim>\<open>if (host === 'localhost')\<close>: the host property is added when the object does not
  have it, and for host \<^verbatim>\<open>'localhost'\<close> the callback is replaced by the wrapper.
\<close>

definition preparedOptions :: "listenOptions \<Rightarrow> jsval \<Rightarrow> listenOptions" where
  "preparedOptions lo cb0 =
     (let hst = listenHost lo;
          lo1 = (if host lo = None then lo\<lparr>host := Some hst\<rparr> else lo)
      in if hst = JStr ''localhost''
         then lo1\<lparr>cb := Some (LocalhostCb cb0 (targetOf lo1))\<rparr> else lo1)"

definition listen :: "listenOptions \<Rightarrow> jsval \<Rightarrow> fastify \<Rightarrow> fastify \<times> pending" where
  "listen lo cb0 s =
     (let hst = listenHost lo;
          lo2 = preparedOptions lo cb0
      in if cb0 = JUndefined then
           (case listenPromise MainServer lo2
                   (if hst = JStr ''localhost'' then Some (targetOf lo2) else None) s of
              (s1, p) \<Rightarrow>
                (s1, if race (promises s1 ! p) = None then AwaitReadyPromise p lo2
                     else RejectedPromise p))
         else (s, AwaitReadyCallback lo2))"

text \<open>What the readiness gate continues with, given its error or none.\<close>

fun ready :: "runtime \<Rightarrow> pending \<Rightarrow> error option \<Rightarrow> fastify \<Rightarrow> fastify" where
  "ready rt (AwaitReadyCallback lo) err s = listenCallback rt MainServer lo err s"
| "ready rt (AwaitReadyPromise p lo) err s = listenPromiseReady rt p MainServer lo err s"
| "ready rt (RejectedPromise p) err s = s"

text \<open>
  The instance after \<^verbatim>\<open>createServer\<close>: one server, not bound, no listener, neither
  flag set.
\<close>

definition createServer :: "options \<Rightarrow> fastify" where
  "createServer ko =
     \<lparr>listening = False, closing = False, kOptions = ko, kServerBindings = [],
      mainServer = newServer, secondaries = [], lookups = [], counters = [], promises = [],
      nextClosure = 0, crashed = False, trace = []\<rparr>"

text \<open>
  A call of \<^verbatim>\<open>listen\<close> followed by the continuation of the readiness gate, which
  passes \<open>err\<close>.
\<close>

definition listenThenReady ::
  "runtime \<Rightarrow> listenOptions \<Rightarrow> jsval \<Rightarrow> error option \<Rightarrow> fastify \<Rightarrow> fastify" where
  "listenThenReady rt lo cb0 err s = (case listen lo cb0 s of (s1, pnd) \<Rightarrow> ready rt pnd err s1)"

text \<open>
  Two runtimes for the examples: one whose \<^verbatim>\<open>server.listen\<close> accepts every call, and one
  that throws, as Node.js does, when the port option is a number that is not an integer
  from 0 to 65535.
\<close>

definition accepting :: runtime where
  "accepting s sv lo = None"

definition portChecking :: runtime where
  "portChecking s sv lo =
     (case readProp (port lo) of
        JNum n \<Rightarrow> (if nonNegInteger (JNum n) \<and> n \<noteq> NaN
                        \<and> (case n of Fin q \<Rightarrow> q \<le> 65535 | _ \<Rightarrow> False)
                     then None else Some (External ''ERR_SOCKET_BAD_PORT''))
      | _ \<Rightarrow> None)"

text \<open>
  What the outside sees when an \<^verbatim>\<open>onListen\<close> arrow runs: the caller's callback called
  with no error and the address, or \<^verbatim>\<open>resolve(address)\<close> on the returned promise.
\<close>

fun completionOf :: "onlisten \<Rightarrow> effect" where
  "completionOf (OnListenCb f adr) = (case f of JFunction n \<Rightarrow> CallUser n None adr | _ \<Rightarrow> Throw)"
| "completionOf (OnListenPromise p adr) = Resolve p adr"

text \<open>
  \<^verbatim>\<open>multipleBindings\<close> on the listen options \<open>lo\<close> with its lookup callback run on the
  resolved addresses; and the resolved addresses that differ from the address the
  primary is bound to, in the order of the resolver.
\<close>

definition dualStack ::
  "runtime \<Rightarrow> bind_target \<Rightarrow> onlisten \<Rightarrow> string list \<Rightarrow> fastify \<Rightarrow> fastify" where
  "dualStack rt lo ol addresses s =
     lookupCallback rt (length (lookups s)) (Inr addresses) (multipleBindings lo ol s)"

definition differing :: "bound_address \<Rightarrow> string list \<Rightarrow> string list" where
  "differing pa addresses = filter (\<lambda>x. JStr x \<noteq> addressOf pa) addresses"

text \<open>
  The positional arguments, that is the argument list without a trailing function; and
  the test of \<^verbatim>\<open>normalizeListenArgs\<close> for the pipe form: the first positional argument
  is a string that does not convert to a number.
\<close>

definition positional :: "jsval list \<Rightarrow> jsval list" where
  "positional args = (if args = [] then [] else snd (popCallback args))"

definition pathForm :: "(jsval \<Rightarrow> jsnum) \<Rightarrow> jsval list \<Rightarrow> bool" where
  "pathForm conv args =
     (isString (firstOf (positional args)) \<and> isNaN conv (firstOf (positional args)))"

text \<open>
  The second half of claim C10 as it is worded, for the callback form: a second listen
  call made after the first call has started its bind gets \<^verbatim>\<open>FST_ERR_REOPENED_SERVER\<close>
  and changes nothing else.
\<close>

definition refusedAsListening ::
  "runtime \<Rightarrow> listenOptions \<Rightarrow> jsval \<Rightarrow> listenOptions \<Rightarrow> nat \<Rightarrow> fastify \<Rightarrow> bool" where
  "refusedAsListening rt lo cb0 lo2 g s =
     (listenThenReady rt lo2 (JFunction g) None (listenThenReady rt lo cb0 None s)
        = emitEffect (CallUser g (Some FST_ERR_REOPENED_SERVER) None)
            (listenThenReady rt lo cb0 None s))"

section \<open>Properties of the version gate\<close>

text \<open>
  C2. For every configuration and every version label \<open>v\<close>, the compiled gate accepts
  \<open>v\<close> exactly when a custom transport factory is supplied, or http2 is enabled and
  \<open>v\<close> is "2.0", or http2 is enabled with TLS options whose allowHTTP1 is exactly
  \<^verbatim>\<open>true\<close> and \<open>v\<close> is "1.1" or "1.0", or http2 is disabled and \<open>v\<close> is "1.1" or "1.0".
\<close>

theorem version_gate_accepts_iff:
  "compileValidateHTTPVersion opts v \<longleftrightarrow>
     truthy (serverFactory opts)
     \<or> (truthy (http2 opts) \<and> v = ''2.0'')
     \<or> (truthy (http2 opts) \<and> (\<exists>h. https opts = Some h \<and> allowHTTP1 h = JBool True)
          \<and> (v = ''1.1'' \<or> v = ''1.0''))
     \<or> (\<not> truthy (http2 opts) \<and> (v = ''1.1'' \<or> v = ''1.0''))"
  by (auto simp: compileValidateHTTPVersion_def Let_def split: option.splits if_splits)

theorem version_gate_accepts_iff_witness:
  "compileValidateHTTPVersion
      \<lparr>serverFactory = JUndefined, http2 = JBool True, https = Some \<lparr>allowHTTP1 = JBool True\<rparr>\<rparr> ''1.1''
   \<and> \<not> compileValidateHTTPVersion
      \<lparr>serverFactory = JUndefined, http2 = JBool True, https = Some \<lparr>allowHTTP1 = JNum (Fin 1)\<rparr>\<rparr> ''1.1''
   \<and> \<not> compileValidateHTTPVersion
      \<lparr>serverFactory = JUndefined, http2 = JBool False, https = None\<rparr> ''2.0''
   \<and> compileValidateHTTPVersion
      \<lparr>serverFactory = JFunction 0, http2 = JBool False, https = None\<rparr> ''3.0''"
  using version_gate_accepts_iff
    [of "\<lparr>serverFactory = JUndefined, http2 = JBool True, https = Some \<lparr>allowHTTP1 = JBool True\<rparr>\<rparr>" "''1.1''"]
    version_gate_accepts_iff
    [of "\<lparr>serverFactory = JUndefined, http2 = JBool True, https = Some \<lparr>allowHTTP1 = JNum (Fin 1)\<rparr>\<rparr>" "''1.1''"]
    version_gate_accepts_iff
    [of "\<lparr>serverFactory = JUndefined, http2 = JBool False, https = None\<rparr>" "''2.0''"]
    version_gate_accepts_iff
    [of "\<lparr>serverFactory = JFunction 0, http2 = JBool False, https = None\<rparr>" "''3.0''"]
  by simp

section \<open>Properties of the address reporter\<close>

text \<open>
  C8. For every bound address the address reporter returns: the path verbatim, with no
  scheme, for a filesystem or pipe path; the scheme followed by \<open>address:port\<close> for an
  IP address whose text has no colon (every IPv4 literal); the scheme followed by
  \<open>[address]:port\<close> for one whose text has a colon (every IPv6 literal). The scheme is
  \<open>https://\<close> exactly when TLS options are configured and \<open>http://\<close> otherwise.
  So (127.0.0.1, 3000) without TLS gives \<open>http://127.0.0.1:3000\<close>, (::1, 3000) gives
  \<open>http://[::1]:3000\<close> and the path \<open>/tmp/x.sock\<close> gives \<open>/tmp/x.sock\<close>.
\<close>

theorem logServerAddress_format:
  "map_option fst (logServerAddress ko (Some (UnixPath p)) r) = Some p
   \<and> (CHR '':'' \<notin> set a \<and> https ko = None \<longrightarrow>
        map_option fst (logServerAddress ko (Some (Inet a prt)) r)
          = Some (''http://'' @ a @ '':'' @ decimal prt))
   \<and> (CHR '':'' \<in> set a \<and> https ko = None \<longrightarrow>
        map_option fst (logServerAddress ko (Some (Inet a prt)) r)
          = Some (''http://['' @ a @ '']:'' @ decimal prt))
   \<and> (CHR '':'' \<notin> set a \<and> https ko \<noteq> None \<longrightarrow>
        map_option fst (logServerAddress ko (Some (Inet a prt)) r)
          = Some (''https://'' @ a @ '':'' @ decimal prt))
   \<and> (CHR '':'' \<in> set a \<and> https ko \<noteq> None \<longrightarrow>
        map_option fst (logServerAddress ko (Some (Inet a prt)) r)
          = Some (''https://['' @ a @ '']:'' @ decimal prt))
   \<and> map_option fst (logServerAddress \<lparr>serverFactory = JUndefined, http2 = JUndefined, https = None\<rparr>
        (Some (Inet ''127.0.0.1'' 3000)) r) = Some ''http://127.0.0.1:3000''
   \<and> map_option fst (logServerAddress \<lparr>serverFactory = JUndefined, http2 = JUndefined, https = None\<rparr>
        (Some (Inet ''::1'' 3000)) r) = Some ''http://[::1]:3000''
   \<and> map_option fst (logServerAddress \<lparr>serverFactory = JUndefined, http2 = JUndefined, https = None\<rparr>
        (Some (UnixPath ''/tmp/x.sock'')) r) = Some ''/tmp/x.sock''"
  by (simp add: logServerAddress_def Let_def decimal.simps)

theorem logServerAddress_format_witness:
  "map_option fst (logServerAddress
      \<lparr>serverFactory = JUndefined, http2 = JUndefined, https = Some \<lparr>allowHTTP1 = JUndefined\<rparr>\<rparr>
      (Some (Inet ''::1'' 443)) defaultResolveServerListeningText) = Some ''https://[::1]:443''
   \<and> map_option fst (logServerAddress
      \<lparr>serverFactory = JUndefined, http2 = JUndefined, https = None\<rparr>
      (Some (Inet ''10.0.0.7'' 80)) defaultResolveServerListeningText) = Some ''http://10.0.0.7:80''"
  using logServerAddress_format
    [of "\<lparr>serverFactory = JUndefined, http2 = JUndefined, https = Some \<lparr>allowHTTP1 = JUndefined\<rparr>\<rparr>"
        "[]" defaultResolveServerListeningText "''::1''" 443]
    logServerAddress_format
    [of "\<lparr>serverFactory = JUndefined, http2 = JUndefined, https = None\<rparr>"
        "[]" defaultResolveServerListeningText "''10.0.0.7''" 80]
  by (simp add: decimal.simps)





section \<open>Properties of the normaliser\<close>

lemma isInteger_defined: "isInteger v \<Longrightarrow> v \<noteq> JUndefined"
  by (cases v) auto

lemma truthy_defined: "truthy v \<Longrightarrow> v \<noteq> JUndefined"
  by (cases v) auto

lemma isString_defined: "isString v \<Longrightarrow> v \<noteq> JUndefined"
  by (cases v) auto

lemma normalizePort_nonNeg: "nonNegInteger (normalizePort conv v)"
  by (simp add: normalizePort_def Let_def nonNegInteger_def)

lemma normalizePort_defined: "normalizePort conv v \<noteq> JUndefined"
  by (simp add: normalizePort_def Let_def)

lemma popCallback_set: "popCallback xs = (c, ys) \<Longrightarrow> set ys \<subseteq> set xs"
  by (auto simp: popCallback_def split: jsval.splits dest: in_set_butlastD)

lemma normalizeListenArgs_exactlyOne: "exactlyOneTarget (normalizeListenArgs conv args)"
proof (cases "args = []")
  case True
  then show ?thesis
    by (simp add: exactlyOneTarget_def normalizeListenArgs_def isSet_def readProp_def)
next
  case False
  obtain c ys where p: "popCallback args = (c, ys)" by (cases "popCallback args")
  show ?thesis using False p
    by (simp add: exactlyOneTarget_def normalizeListenArgs_def isSet_def readProp_def Let_def
         isInteger_defined truthy_defined isString_defined normalizePort_defined)
qed

lemma normalizeListenArgs_backlog:
  "\<not> isSet (backlog (normalizeListenArgs conv args))
   \<or> readProp (backlog (normalizeListenArgs conv args)) \<in> set args"
proof (cases "args = []")
  case True
  then show ?thesis
    by (simp add: normalizeListenArgs_def isSet_def readProp_def)
next
  case False
  obtain c ys where p: "popCallback args = (c, ys)" by (cases "popCallback args")
  have sub: "set ys \<subseteq> set args" using p by (rule popCallback_set)
  have l: "ys \<noteq> [] \<Longrightarrow> last ys \<in> set args" using sub last_in_set by blast
  have n: "\<And>i. i < length ys \<Longrightarrow> ys ! i \<in> set args" using sub nth_mem by blast
  show ?thesis using False p l n
    by (auto simp add: normalizeListenArgs_def isSet_def readProp_def Let_def)
qed

text \<open>
  C7, as stated, fails: the backlog is not validated. For the arguments
  \<open>(3000, "127.0.0.1", -1)\<close> the normalised request has backlog \<open>-1\<close>.
\<close>

theorem normalizeListenArgs_backlog_counterexample:
  "\<not> requestAsSpecified
     (normalizeListenArgs decimalConv [JNum (Fin 3000), JStr ''127.0.0.1'', JNum (Fin (- 1))])"
  by (simp add: requestAsSpecified_def normalizeListenArgs_def popCallback_def Let_def
       isSet_def readProp_def nonNegInteger_def)


lemma normalizePort_eq:
  "normalizePort conv v =
     (if nonNegInteger (JNum (Number conv v)) then JNum (Number conv v) else JNum (Fin 0))"
  by (cases "Number conv v") (auto simp: normalizePort_def Let_def nonNegInteger_def)

lemma normalizeListenArgs_empty:
  "normalizeListenArgs conv [] =
     \<lparr>port = Some (JNum (Fin 0)), host = Some (JStr ''localhost''), path = None,
      backlog = None, listenTextResolver = None, cb = None\<rparr>"
  by (simp add: normalizeListenArgs_def)

lemma normalizeListenArgs_path_form:
  assumes "pathForm conv args"
  shows "path (normalizeListenArgs conv args) = Some (firstOf (positional args))"
    and "\<not> isSet (port (normalizeListenArgs conv args))"
    and "\<not> isSet (host (normalizeListenArgs conv args))"
    and "readProp (backlog (normalizeListenArgs conv args)) =
           (if 1 < length (positional args) then last (positional args) else JUndefined)"
proof -
  have ne: "args \<noteq> []" using assms by (auto simp: pathForm_def positional_def firstOf_def)
  obtain c ys where p: "popCallback args = (c, ys)" by (cases "popCallback args")
  have ps: "positional args = ys" using ne p by (simp add: positional_def)
  have f: "isString (firstOf ys)" "isNaN conv (firstOf ys)"
    using assms unfolding pathForm_def ps by simp_all
  have fo: "(case ys of [] \<Rightarrow> JUndefined | x # _ \<Rightarrow> x) = firstOf ys" by (simp add: firstOf_def)
  have y: "ys \<noteq> []" using f(1) by (auto simp: firstOf_def)
  show "path (normalizeListenArgs conv args) = Some (firstOf (positional args))"
    using ne p f unfolding ps by (simp add: normalizeListenArgs_def Let_def fo)
  show "\<not> isSet (port (normalizeListenArgs conv args))"
    using ne p f by (simp add: normalizeListenArgs_def Let_def fo isSet_def readProp_def)
  show "\<not> isSet (host (normalizeListenArgs conv args))"
    using ne p f by (simp add: normalizeListenArgs_def Let_def fo isSet_def readProp_def)
  show "readProp (backlog (normalizeListenArgs conv args)) =
           (if 1 < length (positional args) then last (positional args) else JUndefined)"
    using ne p f y unfolding ps by (simp add: normalizeListenArgs_def Let_def fo readProp_def)
qed

lemma normalizeListenArgs_port_form:
  assumes "\<not> pathForm conv args"
  shows "\<not> isSet (path (normalizeListenArgs conv args))
     \<and> isSet (port (normalizeListenArgs conv args))
     \<and> isSet (host (normalizeListenArgs conv args))
     \<and> readProp (host (normalizeListenArgs conv args)) =
           (if 2 \<le> length (positional args) \<and> truthy (positional args ! 1)
            then positional args ! 1 else JStr ''localhost'')
     \<and> readProp (backlog (normalizeListenArgs conv args)) =
           (if 3 \<le> length (positional args) then positional args ! 2 else JUndefined)
     \<and> readProp (port (normalizeListenArgs conv args)) =
           (if isInteger (firstOf (positional args)) then firstOf (positional args)
            else normalizePort conv (firstOf (positional args)))"
proof (cases "args = []")
  case True
  then show ?thesis
    by (simp add: normalizeListenArgs_empty positional_def isSet_def readProp_def
          firstOf_def normalizePort_def)
next
  case False
  obtain c ys where p: "popCallback args = (c, ys)" by (cases "popCallback args")
  have ps: "positional args = ys" using False p by (simp add: positional_def)
  have fo: "(case ys of [] \<Rightarrow> JUndefined | x # _ \<Rightarrow> x) = firstOf ys" by (simp add: firstOf_def)
  have f: "\<not> (isString (firstOf ys) \<and> isNaN conv (firstOf ys))"
    using assms unfolding pathForm_def ps by simp
  have i0: "isInteger (firstOf ys) \<Longrightarrow> 1 \<le> length ys" by (cases ys) (auto simp: firstOf_def)
  have r: "normalizeListenArgs conv args =
     \<lparr>port = Some (if isInteger (firstOf ys) then firstOf ys else normalizePort conv (firstOf ys)),
      host = Some (if 2 \<le> length ys \<and> truthy (ys ! 1) then ys ! 1 else JStr ''localhost''),
      path = None,
      backlog = Some (if 3 \<le> length ys then ys ! 2 else JUndefined),
      listenTextResolver = None, cb = c\<rparr>"
    using False p f i0 by (auto simp add: normalizeListenArgs_def Let_def fo)
  show ?thesis
    unfolding r ps
    by (simp add: isSet_def readProp_def isInteger_defined normalizePort_defined truthy_defined)
qed


text \<open>
  C7, amended. For every argument list, with \<open>ps\<close> the arguments without a trailing
  callback: the normalised request has exactly one of {path} or {port, host} set. When
  the first of \<open>ps\<close> is a string that is no number, the path is that string, port and
  host are unset, and backlog is the last of \<open>ps\<close> if there are at least two, else
  unset. Otherwise the path is unset, port and host are set, host is the second of \<open>ps\<close>
  if that is truthy and \<open>localhost\<close> if not, and backlog is the third of \<open>ps\<close>, else
  unset; the port is the first of \<open>ps\<close> when that is a non-negative integer, and when
  the first is not an integer it is the non-negative integer that the first converts to,
  or 0 when it converts to none; so the port is a non-negative integer unless the first
  argument is a negative integer. The backlog is in every case unset or one of the
  caller's arguments, passed through as given.
\<close>

theorem normalizeListenArgs_request:
  "(let r = normalizeListenArgs conv args; ps = positional args in
      exactlyOneTarget r
    \<and> (pathForm conv args \<longrightarrow>
          path r = Some (firstOf ps) \<and> \<not> isSet (port r) \<and> \<not> isSet (host r)
        \<and> readProp (backlog r) = (if 1 < length ps then last ps else JUndefined))
    \<and> (\<not> pathForm conv args \<longrightarrow>
          \<not> isSet (path r) \<and> isSet (port r) \<and> isSet (host r)
        \<and> readProp (host r) = (if 2 \<le> length ps \<and> truthy (ps ! 1) then ps ! 1
                                else JStr ''localhost'')
        \<and> readProp (backlog r) = (if 3 \<le> length ps then ps ! 2 else JUndefined)
        \<and> (nonNegInteger (firstOf ps) \<longrightarrow> readProp (port r) = firstOf ps)
        \<and> (\<not> isInteger (firstOf ps) \<longrightarrow>
              readProp (port r) =
                (if nonNegInteger (JNum (Number conv (firstOf ps)))
                 then JNum (Number conv (firstOf ps)) else JNum (Fin 0)))
        \<and> (\<not> negInteger (firstOf ps) \<longrightarrow> nonNegInteger (readProp (port r))))
    \<and> (\<not> isSet (backlog r) \<or> readProp (backlog r) \<in> set args))"
proof (cases "pathForm conv args")
  case True
  show ?thesis
    unfolding Let_def
    using True normalizeListenArgs_exactlyOne [of conv args]
      normalizeListenArgs_backlog [of conv args]
      normalizeListenArgs_path_form [OF True]
    by simp
next
  case False
  note pf = normalizeListenArgs_port_form [OF False]
  have i: "nonNegInteger (firstOf (positional args)) \<Longrightarrow> isInteger (firstOf (positional args))"
    by (simp add: nonNegInteger_def split: jsval.splits)
  have n: "\<not> negInteger (firstOf (positional args)) \<Longrightarrow>
        nonNegInteger (readProp (port (normalizeListenArgs conv args)))"
    using pf by (auto simp: negInteger_def normalizePort_nonNeg)
  show ?thesis
    unfolding Let_def
    using False normalizeListenArgs_exactlyOne [of conv args]
      normalizeListenArgs_backlog [of conv args] pf i n
    by (simp add: normalizePort_eq)
qed


theorem normalizeListenArgs_request_witness:
  "pathForm decimalConv [JStr ''/tmp/x.sock'', JNum (Fin 511), JFunction 7]
   \<and> path (normalizeListenArgs decimalConv [JStr ''/tmp/x.sock'', JNum (Fin 511), JFunction 7])
        = Some (JStr ''/tmp/x.sock'')
   \<and> readProp (backlog (normalizeListenArgs decimalConv
        [JStr ''/tmp/x.sock'', JNum (Fin 511), JFunction 7])) = JNum (Fin 511)
   \<and> \<not> pathForm decimalConv [JStr ''80'', JStr ''::1'']
   \<and> \<not> isInteger (firstOf (positional [JStr ''80'', JStr ''::1'']))
   \<and> readProp (port (normalizeListenArgs decimalConv [JStr ''80'', JStr ''::1''])) = JNum (Fin 80)
   \<and> readProp (host (normalizeListenArgs decimalConv [JStr ''80'', JStr ''::1''])) = JStr ''::1''"
proof -
  let ?a = "[JStr ''/tmp/x.sock'', JNum (Fin 511), JFunction 7]"
  let ?b = "[JStr ''80'', JStr ''::1'']"
  have pa: "positional ?a = [JStr ''/tmp/x.sock'', JNum (Fin 511)]"
    by (simp add: positional_def popCallback_def)
  have pb: "positional ?b = ?b"
    by (simp add: positional_def popCallback_def)
  have fa: "pathForm decimalConv ?a"
    unfolding pathForm_def pa by (simp add: firstOf_def isNaN_def)
  have nb: "Number decimalConv (JStr ''80'') = Fin 80" by simp
  have fb: "\<not> pathForm decimalConv ?b"
    unfolding pathForm_def pb by (simp add: firstOf_def isNaN_def)
  have ib: "\<not> isInteger (firstOf (positional ?b))"
    unfolding pb by (simp add: firstOf_def)
  from normalizeListenArgs_request [of decimalConv ?a] fa
  have a1: "path (normalizeListenArgs decimalConv ?a) = Some (firstOf (positional ?a))"
    and a2: "readProp (backlog (normalizeListenArgs decimalConv ?a))
           = (if 1 < length (positional ?a) then last (positional ?a) else JUndefined)"
    unfolding Let_def by blast+
  from normalizeListenArgs_request [of decimalConv ?b] fb ib
  have b1: "readProp (port (normalizeListenArgs decimalConv ?b)) =
                (if nonNegInteger (JNum (Number decimalConv (firstOf (positional ?b))))
                 then JNum (Number decimalConv (firstOf (positional ?b))) else JNum (Fin 0))"
    and b2: "readProp (host (normalizeListenArgs decimalConv ?b)) =
                (if 2 \<le> length (positional ?b) \<and> truthy (positional ?b ! 1)
                 then positional ?b ! 1 else JStr ''localhost'')"
    unfolding Let_def by blast+
  have a1': "path (normalizeListenArgs decimalConv ?a) = Some (JStr ''/tmp/x.sock'')"
    using a1 unfolding pa by (simp add: firstOf_def)
  have a2': "readProp (backlog (normalizeListenArgs decimalConv ?a)) = JNum (Fin 511)"
    using a2 unfolding pa by simp
  have b1': "readProp (port (normalizeListenArgs decimalConv ?b)) = JNum (Fin 80)"
    using b1 unfolding pb by (simp add: firstOf_def nonNegInteger_def)
  have b2': "readProp (host (normalizeListenArgs decimalConv ?b)) = JStr ''::1''"
    using b2 unfolding pb by simp
  show ?thesis using fa fb ib a1' a2' b1' b2' by blast
qed



section \<open>Properties of the listener state machine\<close>

lemma listen_callback_pending:
  "f \<noteq> JUndefined \<Longrightarrow> \<exists>lo'. listen lo f s = (s, AwaitReadyCallback lo')
      \<and> (cb lo' = cb lo \<or> (\<exists>t. cb lo' = Some (LocalhostCb f t)))"
  by (simp add: listen_def preparedOptions_def Let_def)

lemma callCb_error_user:
  "cb lo = Some (UserCb f) \<or> cb lo = Some (LocalhostCb (JFunction f) t) \<Longrightarrow>
   callCb (cb lo) (Some e) None s = emitEffect (CallUser f (Some e) None) s"
  by (auto simp: callCb_def callUser_def)

lemma listenCallback_guard:
  assumes "listening s" "cb lo = Some (UserCb f) \<or> cb lo = Some (LocalhostCb (JFunction f) t)"
  shows "listenCallback rt sv lo None s =
      emitEffect (CallUser f (Some (if closing s then FST_ERR_REOPENED_CLOSE_SERVER
                                    else FST_ERR_REOPENED_SERVER)) None) s"
  using assms callCb_error_user [OF assms(2)]
  by (simp add: listenCallback_def)

lemma listen_callback_guard:
  assumes "listening s" "cb lo = Some (UserCb f)"
  shows "(case listen lo (JFunction f) s of (s1, pnd) \<Rightarrow> ready rt pnd None s1) =
      emitEffect (CallUser f (Some (if closing s then FST_ERR_REOPENED_CLOSE_SERVER
                                    else FST_ERR_REOPENED_SERVER)) None) s"
proof -
  obtain lo' where l: "listen lo (JFunction f) s = (s, AwaitReadyCallback lo')"
    and c: "cb lo' = cb lo \<or> (\<exists>t. cb lo' = Some (LocalhostCb (JFunction f) t))"
    using listen_callback_pending [of "JFunction f" lo s] by auto
  from c assms(2) obtain t where "cb lo' = Some (UserCb f) \<or> cb lo' = Some (LocalhostCb (JFunction f) t)"
    by auto
  then show ?thesis using l listenCallback_guard [OF assms(1)] by simp
qed

lemma listenPromise_guard:
  assumes "listening s"
  shows "listenPromise sv lo ch s =
     (s\<lparr>promises := promises s @
           [\<lparr>race = Some (Inl (if closing s then FST_ERR_REOPENED_CLOSE_SERVER else FST_ERR_REOPENED_SERVER)),
             chained = ch,
             returned = Some (Inl (if closing s then FST_ERR_REOPENED_CLOSE_SERVER else FST_ERR_REOPENED_SERVER))\<rparr>],
         trace := trace s @ [Reject (length (promises s))
             (if closing s then FST_ERR_REOPENED_CLOSE_SERVER else FST_ERR_REOPENED_SERVER)]\<rparr>,
      length (promises s))"
  using assms
  by (simp add: listenPromise_def settleRace_def settleReturned_def emitEffect_def Let_def nth_append)


lemma listen_promise_guard:
  assumes "listening s"
  shows "case listen lo JUndefined s of (s1, pnd) \<Rightarrow>
           pnd = RejectedPromise (length (promises s))
         \<and> trace s1 = trace s @ [Reject (length (promises s))
               (if closing s then FST_ERR_REOPENED_CLOSE_SERVER else FST_ERR_REOPENED_SERVER)]
         \<and> returned (promises s1 ! length (promises s)) =
               Some (Inl (if closing s then FST_ERR_REOPENED_CLOSE_SERVER else FST_ERR_REOPENED_SERVER))
         \<and> mainServer s1 = mainServer s \<and> secondaries s1 = secondaries s
         \<and> lookups s1 = lookups s \<and> listening s1 = listening s \<and> closing s1 = closing s"
  unfolding listen_def Let_def
  by (simp add: listenPromise_guard [OF assms] nth_append)

text \<open>
  C1. While the instance is listening, a listen attempt binds nothing and fails: with
  \<^verbatim>\<open>FST_ERR_REOPENED_CLOSE_SERVER\<close> when it is also closing, with
  \<^verbatim>\<open>FST_ERR_REOPENED_SERVER\<close> when it is not. In the callback form, once the readiness
  gate has passed without error, the caller's callback is called with that error and
  nothing else changes; in the promise form the returned promise is rejected with it at
  once, and the servers, the lookups and the flags are as before. This holds for every
  options object, whether or not its host makes \<^verbatim>\<open>listen\<close> wrap the callback.
\<close>

theorem listen_while_listening:
  assumes "listening s"
  shows "(cb lo = Some (UserCb f) \<longrightarrow>
           (case listen lo (JFunction f) s of (s1, pnd) \<Rightarrow> ready rt pnd None s1) =
             emitEffect (CallUser f (Some (if closing s then FST_ERR_REOPENED_CLOSE_SERVER
                                          else FST_ERR_REOPENED_SERVER)) None) s)
       \<and> (case listen lo JUndefined s of (s1, pnd) \<Rightarrow>
             pnd = RejectedPromise (length (promises s))
           \<and> trace s1 = trace s @ [Reject (length (promises s))
                 (if closing s then FST_ERR_REOPENED_CLOSE_SERVER else FST_ERR_REOPENED_SERVER)]
           \<and> returned (promises s1 ! length (promises s)) =
                 Some (Inl (if closing s then FST_ERR_REOPENED_CLOSE_SERVER else FST_ERR_REOPENED_SERVER))
           \<and> mainServer s1 = mainServer s \<and> secondaries s1 = secondaries s
           \<and> lookups s1 = lookups s \<and> listening s1 = listening s \<and> closing s1 = closing s)"
proof (intro conjI impI)
  assume "cb lo = Some (UserCb f)"
  then show "(case listen lo (JFunction f) s of (s1, pnd) \<Rightarrow> ready rt pnd None s1) =
             emitEffect (CallUser f (Some (if closing s then FST_ERR_REOPENED_CLOSE_SERVER
                                          else FST_ERR_REOPENED_SERVER)) None) s"
    by (rule listen_callback_guard [OF assms])
qed (rule listen_promise_guard [OF assms])


theorem listen_while_listening_witness:
  "listening ((createServer \<lparr>serverFactory = JUndefined, http2 = JUndefined, https = None\<rparr>)
              \<lparr>listening := True, closing := True\<rparr>)
   \<and> trace (case listen \<lparr>port = Some (JNum (Fin 3000)), host = None, path = None, backlog = None,
                          listenTextResolver = None, cb = Some (UserCb 5)\<rparr> (JFunction 5)
                   ((createServer \<lparr>serverFactory = JUndefined, http2 = JUndefined, https = None\<rparr>)
                      \<lparr>listening := True, closing := True\<rparr>)
             of (s1, pnd) \<Rightarrow> ready accepting pnd None s1)
       = [CallUser 5 (Some FST_ERR_REOPENED_CLOSE_SERVER) None]
   \<and> trace (fst (listen \<lparr>port = Some (JNum (Fin 3000)), host = None, path = None, backlog = None,
                          listenTextResolver = None, cb = None\<rparr> JUndefined
                   ((createServer \<lparr>serverFactory = JUndefined, http2 = JUndefined, https = None\<rparr>)
                      \<lparr>listening := True, closing := True\<rparr>)))
       = [Reject 0 FST_ERR_REOPENED_CLOSE_SERVER]"
proof -
  let ?s = "(createServer \<lparr>serverFactory = JUndefined, http2 = JUndefined, https = None\<rparr>)
              \<lparr>listening := True, closing := True\<rparr>"
  let ?lo = "\<lparr>port = Some (JNum (Fin 3000)), host = None, path = None, backlog = None,
              listenTextResolver = None, cb = Some (UserCb 5)\<rparr>"
  let ?lp = "\<lparr>port = Some (JNum (Fin 3000)), host = None, path = None, backlog = None,
              listenTextResolver = None, cb = None\<rparr>"
  have h: "listening ?s" by simp
  have c: "cb ?lo = Some (UserCb 5)" by simp
  have t: "trace ?s = []" "closing ?s" "promises ?s = []" by (simp_all add: createServer_def)
  from listen_while_listening [OF h, of ?lo 5 accepting] c
  have a: "(case listen ?lo (JFunction 5) ?s of (s1, pnd) \<Rightarrow> ready accepting pnd None s1) =
      emitEffect (CallUser 5 (Some (if closing ?s then FST_ERR_REOPENED_CLOSE_SERVER
                                          else FST_ERR_REOPENED_SERVER)) None) ?s"
    by blast
  have a': "trace (case listen ?lo (JFunction 5) ?s of (s1, pnd) \<Rightarrow> ready accepting pnd None s1)
       = [CallUser 5 (Some FST_ERR_REOPENED_CLOSE_SERVER) None]"
    unfolding a by (simp add: emitEffect_def t)
  from listen_while_listening [OF h, of ?lp 5 accepting]
  have "case listen ?lp JUndefined ?s of (s1, pnd) \<Rightarrow>
          trace s1 = trace ?s @ [Reject (length (promises ?s))
                 (if closing ?s then FST_ERR_REOPENED_CLOSE_SERVER else FST_ERR_REOPENED_SERVER)]"
    by (auto split: prod.splits)
  then have b: "trace (fst (listen ?lp JUndefined ?s)) = [Reject 0 FST_ERR_REOPENED_CLOSE_SERVER]"
    by (simp add: t split: prod.splits)
  show ?thesis using h a' b by blast
qed






section \<open>The flag and the start of the bind\<close>

lemma listenCallback_start:
  assumes "\<not> listening s" "rt s MainServer lo = None"
  shows "listenCallback rt MainServer lo None s =
     s\<lparr>mainServer := (mainServer s)
            \<lparr>errorListeners := errorListeners (mainServer s) @ [Wrap (nextClosure s) MainServer lo],
             listeningListeners := listeningListeners (mainServer s) @ [Wrap (nextClosure s) MainServer lo]\<rparr>,
        nextClosure := nextClosure s + 1, trace := trace s @ [ListenCall MainServer lo],
        listening := True\<rparr>"
  using assms
  by (simp add: listenCallback_def Let_def updSrv_def emitEffect_def)

lemma listenCallback_throws:
  assumes "\<not> listening s" "rt s MainServer lo = Some e"
  shows "listenCallback rt MainServer lo None s =
     s\<lparr>mainServer := (mainServer s)
            \<lparr>errorListeners := errorListeners (mainServer s) @ [Wrap (nextClosure s) MainServer lo]\<rparr>,
        nextClosure := nextClosure s + 1, crashed := True, trace := trace s @ [Thrown e]\<rparr>"
  using assms
  by (simp add: listenCallback_def Let_def updSrv_def emitEffect_def)

lemma listenPromiseReady_start:
  assumes "rt s MainServer lo = None"
  shows "listenPromiseReady rt p MainServer lo None s =
     s\<lparr>mainServer := (mainServer s)
            \<lparr>errorListeners := errorListeners (mainServer s) @ [ErrEventHandler (nextClosure s) p],
             listeningListeners := listeningListeners (mainServer s) @ [Listened (nextClosure s) MainServer p lo]\<rparr>,
        nextClosure := nextClosure s + 1, trace := trace s @ [ListenCall MainServer lo],
        listening := True\<rparr>"
  using assms
  by (simp add: listenPromiseReady_def Let_def updSrv_def emitEffect_def)

lemma listenPromiseReady_throws:
  assumes "rt s MainServer lo = Some e"
  shows "listenPromiseReady rt p MainServer lo None s =
     settleRace p (Inl e)
       (s\<lparr>nextClosure := nextClosure s + 1,
          mainServer := (mainServer s)
            \<lparr>errorListeners := errorListeners (mainServer s) @ [ErrEventHandler (nextClosure s) p]\<rparr>\<rparr>)"
  using assms
  by (simp add: listenPromiseReady_def Let_def updSrv_def)

lemma listenPromise_pending:
  assumes "\<not> listening s"
  shows "listenPromise sv lo ch s =
     (s\<lparr>promises := promises s @ [\<lparr>race = None, chained = ch, returned = None\<rparr>]\<rparr>,
      length (promises s))"
  using assms by (simp add: listenPromise_def Let_def)

lemma listen_callback_form:
  "cb0 \<noteq> JUndefined \<Longrightarrow> listen lo cb0 s = (s, AwaitReadyCallback (preparedOptions lo cb0))"
  by (simp add: listen_def Let_def)

lemma listen_promise_form:
  assumes "\<not> listening s"
  shows "listen lo JUndefined s =
        (s\<lparr>promises := promises s @
              [\<lparr>race = None,
                chained = (if listenHost lo = JStr ''localhost''
                           then Some (targetOf (preparedOptions lo JUndefined)) else None),
                returned = None\<rparr>]\<rparr>,
         AwaitReadyPromise (length (promises s)) (preparedOptions lo JUndefined))"
  using assms by (simp add: listen_def Let_def listenPromise_pending nth_append)

lemma listenThenReady_callback:
  assumes "\<not> listening s" "cb0 \<noteq> JUndefined" "rt s MainServer (preparedOptions lo cb0) = None"
  shows "listenThenReady rt lo cb0 None s =
     s\<lparr>mainServer := (mainServer s)
            \<lparr>errorListeners := errorListeners (mainServer s)
                @ [Wrap (nextClosure s) MainServer (preparedOptions lo cb0)],
             listeningListeners := listeningListeners (mainServer s)
                @ [Wrap (nextClosure s) MainServer (preparedOptions lo cb0)]\<rparr>,
        nextClosure := nextClosure s + 1,
        trace := trace s @ [ListenCall MainServer (preparedOptions lo cb0)],
        listening := True\<rparr>"
  by (simp add: listenThenReady_def listen_callback_form [OF assms(2)]
        listenCallback_start [where rt = rt and s = s and lo = "preparedOptions lo cb0", OF assms(1,3)])

lemma listenThenReady_callback_throws:
  assumes "\<not> listening s" "cb0 \<noteq> JUndefined" "rt s MainServer (preparedOptions lo cb0) = Some e"
  shows "listenThenReady rt lo cb0 None s =
     s\<lparr>mainServer := (mainServer s)
            \<lparr>errorListeners := errorListeners (mainServer s)
                @ [Wrap (nextClosure s) MainServer (preparedOptions lo cb0)]\<rparr>,
        nextClosure := nextClosure s + 1, crashed := True, trace := trace s @ [Thrown e]\<rparr>"
  by (simp add: listenThenReady_def listen_callback_form [OF assms(2)]
        listenCallback_throws [where rt = rt and s = s and lo = "preparedOptions lo cb0", OF assms(1,3)])

lemma listenThenReady_promise:
  assumes "\<not> listening s"
    "\<forall>t. rt t MainServer (preparedOptions lo JUndefined) = None"
  shows "listenThenReady rt lo JUndefined None s =
     s\<lparr>promises := promises s @
              [\<lparr>race = None,
                chained = (if listenHost lo = JStr ''localhost''
                           then Some (targetOf (preparedOptions lo JUndefined)) else None),
                returned = None\<rparr>],
        mainServer := (mainServer s)
            \<lparr>errorListeners := errorListeners (mainServer s)
                @ [ErrEventHandler (nextClosure s) (length (promises s))],
             listeningListeners := listeningListeners (mainServer s)
                @ [Listened (nextClosure s) MainServer (length (promises s))
                     (preparedOptions lo JUndefined)]\<rparr>,
        nextClosure := nextClosure s + 1,
        trace := trace s @ [ListenCall MainServer (preparedOptions lo JUndefined)],
        listening := True\<rparr>"
  using assms(2)
  by (simp add: listenThenReady_def listen_promise_form [OF assms(1)] listenPromiseReady_start)

lemma listenThenReady_promise_throws:
  assumes "\<not> listening s"
    "\<forall>t. rt t MainServer (preparedOptions lo JUndefined) = Some e"
  shows "listenThenReady rt lo JUndefined None s =
     s\<lparr>promises := promises s @
              [\<lparr>race = Some (Inl e),
                chained = (if listenHost lo = JStr ''localhost''
                           then Some (targetOf (preparedOptions lo JUndefined)) else None),
                returned = Some (Inl e)\<rparr>],
        mainServer := (mainServer s)
            \<lparr>errorListeners := errorListeners (mainServer s)
                @ [ErrEventHandler (nextClosure s) (length (promises s))]\<rparr>,
        nextClosure := nextClosure s + 1,
        trace := trace s @ [Reject (length (promises s)) e]\<rparr>"
  using assms(2)
  by (simp add: listenThenReady_def listen_promise_form [OF assms(1)] listenPromiseReady_throws
        settleRace_def settleReturned_def emitEffect_def Let_def nth_append)

lemma listenThenReady_start:
  assumes "\<not> listening s" "\<forall>t. rt t MainServer (preparedOptions lo cb0) = None"
  shows "trace (listenThenReady rt lo cb0 None s)
           = trace s @ [ListenCall MainServer (preparedOptions lo cb0)]
      \<and> listening (listenThenReady rt lo cb0 None s)
      \<and> closing (listenThenReady rt lo cb0 None s) = closing s
      \<and> srvAddress (mainServer (listenThenReady rt lo cb0 None s)) = srvAddress (mainServer s)
      \<and> secondaries (listenThenReady rt lo cb0 None s) = secondaries s"
proof (cases "cb0 = JUndefined")
  case True
  show ?thesis
    unfolding True listenThenReady_promise [where rt = rt and lo = lo, OF assms(1) assms(2) [unfolded True]] by simp
next
  case False
  have "rt s MainServer (preparedOptions lo cb0) = None" using assms(2) by simp
  from listenThenReady_callback [where rt = rt, OF assms(1) False this]
  show ?thesis by simp
qed

lemma listenThenReady_not_started:
  assumes "\<not> listening s" "\<forall>t. rt t MainServer (preparedOptions lo cb0) = Some e"
  shows "\<not> listening (listenThenReady rt lo cb0 None s)"
proof (cases "cb0 = JUndefined")
  case True
  show ?thesis
    unfolding True listenThenReady_promise_throws [where rt = rt and lo = lo, OF assms(1) assms(2) [unfolded True]]
    using assms(1) by simp
next
  case False
  have "rt s MainServer (preparedOptions lo cb0) = Some e" using assms(2) by simp
  from listenThenReady_callback_throws [where rt = rt, OF assms(1) False this]
  show ?thesis using assms(1) by simp
qed

lemma listenThenReady_callback_guard:
  assumes "listening s" "cb lo = Some (UserCb f)"
  shows "listenThenReady rt lo (JFunction f) None s =
      emitEffect (CallUser f (Some (if closing s then FST_ERR_REOPENED_CLOSE_SERVER
                                    else FST_ERR_REOPENED_SERVER)) None) s"
  using listen_callback_guard [OF assms] by (simp add: listenThenReady_def)

lemma listenThenReady_promise_guard:
  assumes "listening s"
  shows "trace (listenThenReady rt lo JUndefined err s) =
      trace s @ [Reject (length (promises s))
                   (if closing s then FST_ERR_REOPENED_CLOSE_SERVER else FST_ERR_REOPENED_SERVER)]"
  using listen_promise_guard [OF assms, of lo]
  by (auto simp: listenThenReady_def split: prod.splits)


text \<open>
  C10, as stated, fails when the instance is closing but not listening (closed before
  it ever listened): the first call starts its bind and sets the flag, and the second
  call, made while that bind is in flight, gets \<^verbatim>\<open>FST_ERR_REOPENED_CLOSE_SERVER\<close>.
\<close>

theorem second_listen_while_closing_counterexample:
  "\<not> refusedAsListening accepting
       \<lparr>port = Some (JNum (Fin 3000)), host = Some (JStr ''127.0.0.1''), path = None,
        backlog = None, listenTextResolver = None, cb = Some (UserCb 5)\<rparr> (JFunction 5)
       \<lparr>port = Some (JNum (Fin 3001)), host = Some (JStr ''127.0.0.1''), path = None,
        backlog = None, listenTextResolver = None, cb = Some (UserCb 6)\<rparr> 6
       ((createServer \<lparr>serverFactory = JUndefined, http2 = JUndefined, https = None\<rparr>)
          \<lparr>closing := True\<rparr>)"
proof -
  let ?s = "(createServer \<lparr>serverFactory = JUndefined, http2 = JUndefined, https = None\<rparr>)
          \<lparr>closing := True\<rparr>"
  let ?lo = "\<lparr>port = Some (JNum (Fin 3000)), host = Some (JStr ''127.0.0.1''), path = None,
        backlog = None, listenTextResolver = None, cb = Some (UserCb 5)\<rparr>"
  let ?lo2 = "\<lparr>port = Some (JNum (Fin 3001)), host = Some (JStr ''127.0.0.1''), path = None,
        backlog = None, listenTextResolver = None, cb = Some (UserCb 6)\<rparr>"
  let ?s2 = "listenThenReady accepting ?lo (JFunction 5) None ?s"
  have h: "\<not> listening ?s" by (simp add: createServer_def)
  have a: "\<forall>t. accepting t MainServer (preparedOptions ?lo (JFunction 5)) = None"
    by (simp add: accepting_def)
  have st: "listening ?s2" "closing ?s2"
    using listenThenReady_start [where rt = accepting, OF h a] by (simp_all add: createServer_def)
  have c: "cb ?lo2 = Some (UserCb 6)" by simp
  have "listenThenReady accepting ?lo2 (JFunction 6) None ?s2
      = emitEffect (CallUser 6 (Some FST_ERR_REOPENED_CLOSE_SERVER) None) ?s2"
    using listenThenReady_callback_guard [OF st(1) c, of accepting] st(2) by simp
  then have "trace (listenThenReady accepting ?lo2 (JFunction 6) None ?s2)
      \<noteq> trace (emitEffect (CallUser 6 (Some FST_ERR_REOPENED_SERVER) None) ?s2)"
    by (simp add: emitEffect_def)
  then show ?thesis unfolding refusedAsListening_def by metis
qed

text \<open>
  C10, amended. On an instance that is not listening, in both forms: when
  \<^verbatim>\<open>server.listen\<close> accepts the call, the flag is true as soon as the bind has been
  started, the only thing that has happened is the call of \<^verbatim>\<open>server.listen\<close>, and the
  server has no new address yet; a second listen call in that state starts no bind and is
  refused, with \<^verbatim>\<open>FST_ERR_REOPENED_SERVER\<close> when the instance is not closing and with
  \<^verbatim>\<open>FST_ERR_REOPENED_CLOSE_SERVER\<close> when it is (the caller's callback gets the error and
  nothing else changes, or the promise is rejected with it). When \<^verbatim>\<open>server.listen\<close>
  throws, no bind is started and the flag stays false.
\<close>

theorem listening_set_when_bind_starts:
  assumes "\<not> listening s"
  shows "((\<forall>t. rt t MainServer (preparedOptions lo cb0) = None) \<longrightarrow>
            listening (listenThenReady rt lo cb0 None s)
          \<and> trace (listenThenReady rt lo cb0 None s)
               = trace s @ [ListenCall MainServer (preparedOptions lo cb0)]
          \<and> srvAddress (mainServer (listenThenReady rt lo cb0 None s)) = srvAddress (mainServer s)
          \<and> (cb lo2 = Some (UserCb g) \<longrightarrow>
               listenThenReady rt lo2 (JFunction g) None (listenThenReady rt lo cb0 None s)
                 = emitEffect (CallUser g (Some (if closing s then FST_ERR_REOPENED_CLOSE_SERVER
                                                else FST_ERR_REOPENED_SERVER)) None)
                     (listenThenReady rt lo cb0 None s))
          \<and> trace (listenThenReady rt lo2 JUndefined err2 (listenThenReady rt lo cb0 None s))
               = trace (listenThenReady rt lo cb0 None s)
                   @ [Reject (length (promises (listenThenReady rt lo cb0 None s)))
                        (if closing s then FST_ERR_REOPENED_CLOSE_SERVER
                         else FST_ERR_REOPENED_SERVER)])
       \<and> ((\<forall>t. rt t MainServer (preparedOptions lo cb0) = Some e) \<longrightarrow>
            \<not> listening (listenThenReady rt lo cb0 None s))"
proof (intro conjI impI)
  assume a: "\<forall>t. rt t MainServer (preparedOptions lo cb0) = None"
  let ?s2 = "listenThenReady rt lo cb0 None s"
  have st: "trace ?s2 = trace s @ [ListenCall MainServer (preparedOptions lo cb0)]"
    "listening ?s2" "closing ?s2 = closing s"
    "srvAddress (mainServer ?s2) = srvAddress (mainServer s)"
    using listenThenReady_start [where rt = rt, OF assms a] by auto
  show "listening ?s2" by (rule st(2))
  show "trace ?s2 = trace s @ [ListenCall MainServer (preparedOptions lo cb0)]" by (rule st(1))
  show "srvAddress (mainServer ?s2) = srvAddress (mainServer s)" by (rule st(4))
  show "trace (listenThenReady rt lo2 JUndefined err2 ?s2)
               = trace ?s2 @ [Reject (length (promises ?s2))
                        (if closing s then FST_ERR_REOPENED_CLOSE_SERVER
                         else FST_ERR_REOPENED_SERVER)]"
    using listenThenReady_promise_guard [OF st(2), of rt lo2 err2] st(3) by simp
  assume c: "cb lo2 = Some (UserCb g)"
  show "listenThenReady rt lo2 (JFunction g) None ?s2
                 = emitEffect (CallUser g (Some (if closing s then FST_ERR_REOPENED_CLOSE_SERVER
                                                else FST_ERR_REOPENED_SERVER)) None) ?s2"
    using listenThenReady_callback_guard [OF st(2) c, of rt] st(3) by simp
next
  assume "\<forall>t. rt t MainServer (preparedOptions lo cb0) = Some e"
  then show "\<not> listening (listenThenReady rt lo cb0 None s)"
    by (rule listenThenReady_not_started [where rt = rt, OF assms])
qed


theorem listening_set_when_bind_starts_witness:
  "\<not> listening (createServer \<lparr>serverFactory = JUndefined, http2 = JUndefined, https = None\<rparr>)
   \<and> (\<forall>t. accepting t MainServer (preparedOptions
         \<lparr>port = Some (JNum (Fin 3000)), host = Some (JStr ''127.0.0.1''), path = None,
          backlog = None, listenTextResolver = None, cb = Some (UserCb 5)\<rparr> (JFunction 5)) = None)
   \<and> listening (listenThenReady accepting
         \<lparr>port = Some (JNum (Fin 3000)), host = Some (JStr ''127.0.0.1''), path = None,
          backlog = None, listenTextResolver = None, cb = Some (UserCb 5)\<rparr> (JFunction 5) None
         (createServer \<lparr>serverFactory = JUndefined, http2 = JUndefined, https = None\<rparr>))
   \<and> trace (listenThenReady accepting
         \<lparr>port = Some (JNum (Fin 3001)), host = Some (JStr ''127.0.0.1''), path = None,
          backlog = None, listenTextResolver = None, cb = Some (UserCb 6)\<rparr> (JFunction 6) None
         (listenThenReady accepting
           \<lparr>port = Some (JNum (Fin 3000)), host = Some (JStr ''127.0.0.1''), path = None,
            backlog = None, listenTextResolver = None, cb = Some (UserCb 5)\<rparr> (JFunction 5) None
           (createServer \<lparr>serverFactory = JUndefined, http2 = JUndefined, https = None\<rparr>)))
       = [ListenCall MainServer
            \<lparr>port = Some (JNum (Fin 3000)), host = Some (JStr ''127.0.0.1''), path = None,
             backlog = None, listenTextResolver = None, cb = Some (UserCb 5)\<rparr>,
          CallUser 6 (Some FST_ERR_REOPENED_SERVER) None]
   \<and> (\<forall>t. portChecking t MainServer (preparedOptions
         \<lparr>port = Some (JNum (Fin 65536)), host = Some (JStr ''127.0.0.1''), path = None,
          backlog = None, listenTextResolver = None, cb = None\<rparr> JUndefined)
         = Some (External ''ERR_SOCKET_BAD_PORT''))
   \<and> \<not> listening (listenThenReady portChecking
         \<lparr>port = Some (JNum (Fin 65536)), host = Some (JStr ''127.0.0.1''), path = None,
          backlog = None, listenTextResolver = None, cb = None\<rparr> JUndefined None
         (createServer \<lparr>serverFactory = JUndefined, http2 = JUndefined, https = None\<rparr>))"
proof -
  let ?s = "createServer \<lparr>serverFactory = JUndefined, http2 = JUndefined, https = None\<rparr>"
  let ?lo = "\<lparr>port = Some (JNum (Fin 3000)), host = Some (JStr ''127.0.0.1''), path = None,
          backlog = None, listenTextResolver = None, cb = Some (UserCb 5)\<rparr>"
  let ?lo2 = "\<lparr>port = Some (JNum (Fin 3001)), host = Some (JStr ''127.0.0.1''), path = None,
          backlog = None, listenTextResolver = None, cb = Some (UserCb 6)\<rparr>"
  let ?lb = "\<lparr>port = Some (JNum (Fin 65536)), host = Some (JStr ''127.0.0.1''), path = None,
          backlog = None, listenTextResolver = None, cb = None\<rparr>"
  let ?e = "External ''ERR_SOCKET_BAD_PORT''"
  have h1: "\<not> listening ?s" and h2: "\<not> closing ?s" and t: "trace ?s = []"
    by (simp_all add: createServer_def)
  have a: "\<forall>t. accepting t MainServer (preparedOptions ?lo (JFunction 5)) = None"
    by (simp add: accepting_def)
  have c: "cb ?lo2 = Some (UserCb 6)" by simp
  have p: "preparedOptions ?lo (JFunction 5) = ?lo"
    by (simp add: preparedOptions_def listenHost_def readProp_def nullish_def Let_def)
  have pb: "preparedOptions ?lb JUndefined = ?lb"
    by (simp add: preparedOptions_def listenHost_def readProp_def nullish_def Let_def)
  have b: "\<forall>t. portChecking t MainServer (preparedOptions ?lb JUndefined) = Some ?e"
    unfolding pb by (simp add: portChecking_def readProp_def nonNegInteger_def)
  note th = listening_set_when_bind_starts [OF h1, of accepting ?lo "JFunction 5" ?lo2 6 None ?e]
  from th a have l: "listening (listenThenReady accepting ?lo (JFunction 5) None ?s)" by blast
  from th a have t1: "trace (listenThenReady accepting ?lo (JFunction 5) None ?s)
       = [ListenCall MainServer ?lo]"
    by (simp add: t p)
  from th a c have "listenThenReady accepting ?lo2 (JFunction 6) None
              (listenThenReady accepting ?lo (JFunction 5) None ?s)
            = emitEffect (CallUser 6 (Some (if closing ?s then FST_ERR_REOPENED_CLOSE_SERVER
                                           else FST_ERR_REOPENED_SERVER)) None)
                (listenThenReady accepting ?lo (JFunction 5) None ?s)"
    by blast
  then have t2: "trace (listenThenReady accepting ?lo2 (JFunction 6) None
              (listenThenReady accepting ?lo (JFunction 5) None ?s))
       = [ListenCall MainServer ?lo, CallUser 6 (Some FST_ERR_REOPENED_SERVER) None]"
    using h2 by (simp add: emitEffect_def t1)
  from listening_set_when_bind_starts [OF h1, of portChecking ?lb JUndefined ?lo2 6 None ?e] b
  have n: "\<not> listening (listenThenReady portChecking ?lb JUndefined None ?s)" by blast
  show ?thesis using h1 a l t2 b n by blast
qed

section \<open>Bind failure\<close>

lemma runAll_append: "runAll r (xs @ ys) s = runAll r ys (runAll r xs s)"
  by (simp add: runAll_def)

lemma runAll_Nil: "runAll r [] s = s"
  by (simp add: runAll_def)

lemma runAll_single: "\<not> crashed s \<Longrightarrow> runAll r [h] s = r h s"
  by (simp add: runAll_def)

lemma runAll_close_error:
  "\<not> crashed s \<Longrightarrow>
   runAll (\<lambda>h. handleError h e) (map CloseSecondary ks) s
     = s\<lparr>trace := trace s @ map (\<lambda>k. CloseCall (SecondaryServer k)) ks\<rparr>"
proof (induction ks arbitrary: s)
  case Nil
  then show ?case by (simp add: runAll_def)
next
  case (Cons k ks)
  have "runAll (\<lambda>h. handleError h e) (map CloseSecondary (k # ks)) s
      = runAll (\<lambda>h. handleError h e) (map CloseSecondary ks) (closeSecondary k s)"
    using Cons.prems by (simp add: runAll_def)
  also have "\<dots> = (closeSecondary k s)\<lparr>trace := trace (closeSecondary k s)
        @ map (\<lambda>k. CloseCall (SecondaryServer k)) ks\<rparr>"
    using Cons.prems by (intro Cons.IH) (simp add: closeSecondary_def emitEffect_def)
  finally show ?case by (simp add: closeSecondary_def emitEffect_def)
qed

lemma filter_once_close: "filter (\<lambda>h. \<not> isOnce h) (map CloseSecondary ks) = map CloseSecondary ks"
  by (induction ks) auto

lemma removeListener_close: "removeListener n (map CloseSecondary ks) = map CloseSecondary ks"
  by (induction ks) (auto simp: removeListener_def)

lemma callCb_error_prepared:
  assumes "cb lo = Some (UserCb f)"
  shows "callCb (cb (preparedOptions lo (JFunction f))) (Some e) None s
           = emitEffect (CallUser f (Some e) None) s"
  using assms by (simp add: preparedOptions_def Let_def callCb_def callUser_def)

lemma bindFailed_callback:
  assumes "\<not> listening s" "\<not> crashed s" "errorListeners (mainServer s) = map CloseSecondary ks"
    "cb lo = Some (UserCb f)" "rt s MainServer (preparedOptions lo (JFunction f)) = None"
  shows "bindFailed MainServer e (listenThenReady rt lo (JFunction f) None s) =
     s\<lparr>mainServer := (mainServer s)
            \<lparr>errorListeners := map CloseSecondary ks,
             listeningListeners := listeningListeners (mainServer s)
                @ [Wrap (nextClosure s) MainServer (preparedOptions lo (JFunction f))]\<rparr>,
        nextClosure := nextClosure s + 1,
        trace := trace s @ [ListenCall MainServer (preparedOptions lo (JFunction f))]
                 @ map (\<lambda>k. CloseCall (SecondaryServer k)) ks
                 @ [CallUser f (Some e) None],
        listening := False\<rparr>"
proof -
  let ?lo = "preparedOptions lo (JFunction f)"
  let ?s2 = "listenThenReady rt lo (JFunction f) None s"
  have s2: "?s2 = s\<lparr>mainServer := (mainServer s)
            \<lparr>errorListeners := map CloseSecondary ks @ [Wrap (nextClosure s) MainServer ?lo],
             listeningListeners := listeningListeners (mainServer s)
                @ [Wrap (nextClosure s) MainServer ?lo]\<rparr>,
        nextClosure := nextClosure s + 1,
        trace := trace s @ [ListenCall MainServer ?lo],
        listening := True\<rparr>"
    using listenThenReady_callback [where rt = rt and lo = lo, OF assms(1) _ assms(5)]
      assms(3) by simp
  show ?thesis
    unfolding s2 bindFailed_def emitError_def
    using assms(2)
    by (simp add: getSrv_def updSrv_def Let_def filter_once_close runAll_append
          runAll_close_error runAll_single wrap_def removeListener_close
          callCb_error_prepared [OF assms(4)] emitEffect_def)
qed


lemma bindFailed_promise:
  assumes "\<not> listening s" "\<not> crashed s" "errorListeners (mainServer s) = map CloseSecondary ks"
    "\<forall>t. rt t MainServer (preparedOptions lo JUndefined) = None"
  shows "bindFailed MainServer e (listenThenReady rt lo JUndefined None s) =
     s\<lparr>promises := promises s @
              [\<lparr>race = Some (Inl e),
                chained = (if listenHost lo = JStr ''localhost''
                           then Some (targetOf (preparedOptions lo JUndefined)) else None),
                returned = Some (Inl e)\<rparr>],
        mainServer := (mainServer s)
            \<lparr>errorListeners := map CloseSecondary ks,
             listeningListeners := listeningListeners (mainServer s)
                @ [Listened (nextClosure s) MainServer (length (promises s))
                     (preparedOptions lo JUndefined)]\<rparr>,
        nextClosure := nextClosure s + 1,
        trace := trace s @ [ListenCall MainServer (preparedOptions lo JUndefined)]
                 @ map (\<lambda>k. CloseCall (SecondaryServer k)) ks
                 @ [Reject (length (promises s)) e],
        listening := False\<rparr>"
  unfolding listenThenReady_promise [where rt = rt and lo = lo, OF assms(1,4)] bindFailed_def emitError_def
  using assms(2,3)
  by (simp add: getSrv_def updSrv_def Let_def filter_once_close runAll_append
        runAll_close_error runAll_single errEventHandler_def settleRace_def settleReturned_def
        emitEffect_def nth_append)

lemma emitError_persistent:
  assumes "\<not> crashed s" "errorListeners (mainServer s) = map CloseSecondary ks"
  shows "trace (bindFailed MainServer e s) =
     trace s @ (if ks = [] then [Unhandled e] else map (\<lambda>k. CloseCall (SecondaryServer k)) ks)"
  using assms
  by (simp add: bindFailed_def emitError_def getSrv_def updSrv_def Let_def filter_once_close
        runAll_close_error emitEffect_def)


lemma errorListeners_callCb:
  "errorListeners (mainServer (callCb c err adr s)) = errorListeners (mainServer s)"
  by (auto simp: callCb_def callUser_def emitEffect_def throwTypeError_def multipleBindings_def
        secondaryCb_def onListen_def settleReturned_def Let_def
      split: option.splits callback.splits jsval.splits prod.splits onlisten.splits)

lemma errorListeners_settleRace:
  "errorListeners (mainServer (settleRace p r s)) = errorListeners (mainServer s)"
  by (auto simp: settleRace_def settleReturned_def emitEffect_def multipleBindings_def Let_def
      split: sum.splits option.splits)

lemma bindSucceeded_observer_removed:
  assumes "\<not> listening s" "\<not> crashed s" "errorListeners (mainServer s) = map CloseSecondary ks"
    "listeningListeners (mainServer s) = []"
    "\<forall>t. rt t MainServer (preparedOptions lo cb0) = None"
  shows "errorListeners (mainServer (bindSucceeded MainServer a (listenThenReady rt lo cb0 None s)))
           = map CloseSecondary ks"
proof (cases "cb0 = JUndefined")
  case True
  show ?thesis
    unfolding True listenThenReady_promise [where rt = rt and lo = lo, OF assms(1) assms(5) [unfolded True]]
      bindSucceeded_def emitListening_def
    using assms(2,3,4)
    by (simp add: getSrv_def updSrv_def runAll_single listened_def Let_def removeListener_def
          errorListeners_settleRace throwTypeError_def emitEffect_def
          split: option.splits prod.splits)
next
  case False
  show ?thesis
    unfolding listenThenReady_callback [where rt = rt and lo = lo, OF assms(1) False assms(5) [rule_format]]
      bindSucceeded_def emitListening_def
    using assms(2,3,4)
    by (simp add: getSrv_def updSrv_def runAll_single wrap_def Let_def removeListener_def
          errorListeners_callCb throwTypeError_def emitEffect_def
          split: option.splits prod.splits)
qed

text \<open>
  The bind that fails by the \<^verbatim>\<open>'error'\<close> event of the server, after a \<^verbatim>\<open>server.listen\<close>
  that accepted the call, on an instance that was not listening and whose primary has at
  most \<^verbatim>\<open>closeSecondary\<close> listeners for \<^verbatim>\<open>'error'\<close>: in the callback form the caller's
  callback is called once, with the bind error; in the promise form the returned promise
  is rejected once, with the bind error. In both the flag is false afterwards, the error
  observer is no longer registered (as it is no longer after a bind that succeeds), and
  a later \<^verbatim>\<open>'error'\<close> event of the server reaches neither the callback nor the promise.
\<close>

lemma bind_failure_by_event:
  assumes "\<not> listening s" "\<not> crashed s" "errorListeners (mainServer s) = map CloseSecondary ks"
    and acc: "\<And>t c. rt t MainServer (preparedOptions lo c) = None"
  shows "(cb lo = Some (UserCb f) \<longrightarrow>
           (let s3 = bindFailed MainServer e (listenThenReady rt lo (JFunction f) None s) in
              trace s3 = trace s @ [ListenCall MainServer (preparedOptions lo (JFunction f))]
                           @ map (\<lambda>k. CloseCall (SecondaryServer k)) ks
                           @ [CallUser f (Some e) None]
            \<and> \<not> listening s3
            \<and> errorListeners (mainServer s3) = map CloseSecondary ks
            \<and> trace (bindFailed MainServer e' s3) =
                trace s3 @ (if ks = [] then [Unhandled e']
                            else map (\<lambda>k. CloseCall (SecondaryServer k)) ks)))
       \<and> (let s3 = bindFailed MainServer e (listenThenReady rt lo JUndefined None s) in
              trace s3 = trace s @ [ListenCall MainServer (preparedOptions lo JUndefined)]
                           @ map (\<lambda>k. CloseCall (SecondaryServer k)) ks
                           @ [Reject (length (promises s)) e]
            \<and> returned (promises s3 ! length (promises s)) = Some (Inl e)
            \<and> \<not> listening s3
            \<and> errorListeners (mainServer s3) = map CloseSecondary ks
            \<and> trace (bindFailed MainServer e' s3) =
                trace s3 @ (if ks = [] then [Unhandled e']
                            else map (\<lambda>k. CloseCall (SecondaryServer k)) ks))
       \<and> (listeningListeners (mainServer s) = [] \<longrightarrow>
            errorListeners (mainServer (bindSucceeded MainServer a (listenThenReady rt lo cb0 None s)))
              = map CloseSecondary ks)"
proof (intro conjI impI)
  assume c: "cb lo = Some (UserCb f)"
  let ?s3 = "bindFailed MainServer e (listenThenReady rt lo (JFunction f) None s)"
  note eq = bindFailed_callback [where rt = rt and lo = lo and e = e, OF assms(1-3) c acc]
  have p: "\<not> crashed ?s3" "errorListeners (mainServer ?s3) = map CloseSecondary ks"
    unfolding eq using assms(2) by simp_all
  show "let s3 = ?s3 in
              trace s3 = trace s @ [ListenCall MainServer (preparedOptions lo (JFunction f))]
                           @ map (\<lambda>k. CloseCall (SecondaryServer k)) ks
                           @ [CallUser f (Some e) None]
            \<and> \<not> listening s3
            \<and> errorListeners (mainServer s3) = map CloseSecondary ks
            \<and> trace (bindFailed MainServer e' s3) =
                trace s3 @ (if ks = [] then [Unhandled e']
                            else map (\<lambda>k. CloseCall (SecondaryServer k)) ks)"
    unfolding Let_def emitError_persistent [OF p]
    unfolding eq by simp
next
  let ?s3 = "bindFailed MainServer e (listenThenReady rt lo JUndefined None s)"
  have acc': "\<forall>t. rt t MainServer (preparedOptions lo JUndefined) = None" using acc by simp
  note eq = bindFailed_promise [where rt = rt and lo = lo and e = e, OF assms(1-3) acc']
  have p: "\<not> crashed ?s3" "errorListeners (mainServer ?s3) = map CloseSecondary ks"
    unfolding eq using assms(2) by simp_all
  show "let s3 = ?s3 in
              trace s3 = trace s @ [ListenCall MainServer (preparedOptions lo JUndefined)]
                           @ map (\<lambda>k. CloseCall (SecondaryServer k)) ks
                           @ [Reject (length (promises s)) e]
            \<and> returned (promises s3 ! length (promises s)) = Some (Inl e)
            \<and> \<not> listening s3
            \<and> errorListeners (mainServer s3) = map CloseSecondary ks
            \<and> trace (bindFailed MainServer e' s3) =
                trace s3 @ (if ks = [] then [Unhandled e']
                            else map (\<lambda>k. CloseCall (SecondaryServer k)) ks)"
    unfolding Let_def emitError_persistent [OF p]
    unfolding eq by (simp add: nth_append)
next
  assume "listeningListeners (mainServer s) = []"
  then show "errorListeners (mainServer (bindSucceeded MainServer a (listenThenReady rt lo cb0 None s)))
              = map CloseSecondary ks"
    using bindSucceeded_observer_removed [where rt = rt and lo = lo, OF assms(1-3)] acc by blast
qed

lemmas run_defs = listenThenReady_def listen_def preparedOptions_def listenHost_def readProp_def
  nullish_def Let_def listenPromise_def listenPromiseReady_def listenCallback_def ready.simps
  portChecking_def accepting_def nonNegInteger_def createServer_def newServer_def updSrv_def getSrv_def
  emitEffect_def settleRace_def settleReturned_def targetOf_def callCb_def callUser_def
  bindSucceeded_def bindFailed_def emitListening_def emitError_def runAll_def
  listened_def wrap_def errEventHandler_def removeListener_def logServerAddress_def
  resolverOf_def defaultResolveServerListeningText_def decimal.simps multipleBindings_def
  throwTypeError_def

text \<open>
  C5. The bind that fails because \<^verbatim>\<open>server.listen\<close> throws (as Node.js does for a port
  out of range) is not handled as the claim says. On a new instance, with the runtime
  \<^verbatim>\<open>portChecking\<close>:

  \<^item> callback form, port -1: the exception escapes \<^verbatim>\<open>listenCallback\<close>, the caller's
    callback is never called, and \<^verbatim>\<open>wrap\<close> stays registered for \<^verbatim>\<open>'error'\<close>;

  \<^item> promise form, port 65536: the promise is rejected once with the error and the flag
    stays false, but \<^verbatim>\<open>errEventHandler\<close> stays registered for \<^verbatim>\<open>'error'\<close> after the promise
    has settled. After a later listen on port 3000 whose bind succeeds (the instance is
    listening, the second promise resolved), an unrelated \<^verbatim>\<open>'error'\<close> event of the server
    runs that handler: it reaches no caller, and it clears the flag of an instance whose
    server is bound.
\<close>

theorem bind_failure_by_throw_leaks_observer:
  "trace (listenThenReady portChecking
       \<lparr>port = Some (JNum (Fin (- 1))), host = Some (JStr ''127.0.0.1''), path = None,
        backlog = None, listenTextResolver = None, cb = Some (UserCb 5)\<rparr> (JFunction 5) None
       (createServer \<lparr>serverFactory = JUndefined, http2 = JUndefined, https = None\<rparr>))
     = [Thrown (External ''ERR_SOCKET_BAD_PORT'')]
   \<and> errorListeners (mainServer (listenThenReady portChecking
       \<lparr>port = Some (JNum (Fin (- 1))), host = Some (JStr ''127.0.0.1''), path = None,
        backlog = None, listenTextResolver = None, cb = Some (UserCb 5)\<rparr> (JFunction 5) None
       (createServer \<lparr>serverFactory = JUndefined, http2 = JUndefined, https = None\<rparr>)))
     = [Wrap 0 MainServer
          \<lparr>port = Some (JNum (Fin (- 1))), host = Some (JStr ''127.0.0.1''), path = None,
           backlog = None, listenTextResolver = None, cb = Some (UserCb 5)\<rparr>]
   \<and> trace (listenThenReady portChecking
       \<lparr>port = Some (JNum (Fin 65536)), host = Some (JStr ''127.0.0.1''), path = None,
        backlog = None, listenTextResolver = None, cb = None\<rparr> JUndefined None
       (createServer \<lparr>serverFactory = JUndefined, http2 = JUndefined, https = None\<rparr>))
     = [Reject 0 (External ''ERR_SOCKET_BAD_PORT'')]
   \<and> \<not> listening (listenThenReady portChecking
       \<lparr>port = Some (JNum (Fin 65536)), host = Some (JStr ''127.0.0.1''), path = None,
        backlog = None, listenTextResolver = None, cb = None\<rparr> JUndefined None
       (createServer \<lparr>serverFactory = JUndefined, http2 = JUndefined, https = None\<rparr>))
   \<and> errorListeners (mainServer (listenThenReady portChecking
       \<lparr>port = Some (JNum (Fin 65536)), host = Some (JStr ''127.0.0.1''), path = None,
        backlog = None, listenTextResolver = None, cb = None\<rparr> JUndefined None
       (createServer \<lparr>serverFactory = JUndefined, http2 = JUndefined, https = None\<rparr>)))
     = [ErrEventHandler 0 0]
   \<and> listening (bindSucceeded MainServer (Inet ''127.0.0.1'' 3000)
       (listenThenReady portChecking
          \<lparr>port = Some (JNum (Fin 3000)), host = Some (JStr ''127.0.0.1''), path = None,
           backlog = None, listenTextResolver = None, cb = None\<rparr> JUndefined None
          (listenThenReady portChecking
             \<lparr>port = Some (JNum (Fin 65536)), host = Some (JStr ''127.0.0.1''), path = None,
              backlog = None, listenTextResolver = None, cb = None\<rparr> JUndefined None
             (createServer \<lparr>serverFactory = JUndefined, http2 = JUndefined, https = None\<rparr>))))
   \<and> trace (bindFailed MainServer (External ''ECONNRESET'')
       (bindSucceeded MainServer (Inet ''127.0.0.1'' 3000)
         (listenThenReady portChecking
            \<lparr>port = Some (JNum (Fin 3000)), host = Some (JStr ''127.0.0.1''), path = None,
             backlog = None, listenTextResolver = None, cb = None\<rparr> JUndefined None
            (listenThenReady portChecking
               \<lparr>port = Some (JNum (Fin 65536)), host = Some (JStr ''127.0.0.1''), path = None,
                backlog = None, listenTextResolver = None, cb = None\<rparr> JUndefined None
               (createServer \<lparr>serverFactory = JUndefined, http2 = JUndefined, https = None\<rparr>)))))
     = [Reject 0 (External ''ERR_SOCKET_BAD_PORT''),
        ListenCall MainServer
          \<lparr>port = Some (JNum (Fin 3000)), host = Some (JStr ''127.0.0.1''), path = None,
           backlog = None, listenTextResolver = None, cb = None\<rparr>,
        LogInfo ''Server listening at http://127.0.0.1:3000'',
        Resolve 1 (Some ''http://127.0.0.1:3000'')]
   \<and> \<not> listening (bindFailed MainServer (External ''ECONNRESET'')
       (bindSucceeded MainServer (Inet ''127.0.0.1'' 3000)
         (listenThenReady portChecking
            \<lparr>port = Some (JNum (Fin 3000)), host = Some (JStr ''127.0.0.1''), path = None,
             backlog = None, listenTextResolver = None, cb = None\<rparr> JUndefined None
            (listenThenReady portChecking
               \<lparr>port = Some (JNum (Fin 65536)), host = Some (JStr ''127.0.0.1''), path = None,
                backlog = None, listenTextResolver = None, cb = None\<rparr> JUndefined None
               (createServer \<lparr>serverFactory = JUndefined, http2 = JUndefined, https = None\<rparr>)))))
   \<and> srvAddress (mainServer (bindFailed MainServer (External ''ECONNRESET'')
       (bindSucceeded MainServer (Inet ''127.0.0.1'' 3000)
         (listenThenReady portChecking
            \<lparr>port = Some (JNum (Fin 3000)), host = Some (JStr ''127.0.0.1''), path = None,
             backlog = None, listenTextResolver = None, cb = None\<rparr> JUndefined None
            (listenThenReady portChecking
               \<lparr>port = Some (JNum (Fin 65536)), host = Some (JStr ''127.0.0.1''), path = None,
                backlog = None, listenTextResolver = None, cb = None\<rparr> JUndefined None
               (createServer \<lparr>serverFactory = JUndefined, http2 = JUndefined, https = None\<rparr>))))))
     = Some (Inet ''127.0.0.1'' 3000)"
proof -
  let ?s0 = "createServer \<lparr>serverFactory = JUndefined, http2 = JUndefined, https = None\<rparr>"
  let ?neg = "\<lparr>port = Some (JNum (Fin (- 1))), host = Some (JStr ''127.0.0.1''), path = None,
        backlog = None, listenTextResolver = None, cb = Some (UserCb 5)\<rparr>"
  let ?big = "\<lparr>port = Some (JNum (Fin 65536)), host = Some (JStr ''127.0.0.1''), path = None,
        backlog = None, listenTextResolver = None, cb = None\<rparr>"
  let ?ok = "\<lparr>port = Some (JNum (Fin 3000)), host = Some (JStr ''127.0.0.1''), path = None,
        backlog = None, listenTextResolver = None, cb = None\<rparr>"
  let ?c = "listenThenReady portChecking ?neg (JFunction 5) None ?s0"
  let ?p = "listenThenReady portChecking ?big JUndefined None ?s0"
  let ?q = "bindSucceeded MainServer (Inet ''127.0.0.1'' 3000)
              (listenThenReady portChecking ?ok JUndefined None ?p)"
  let ?r = "bindFailed MainServer (External ''ECONNRESET'') ?q"
  have c1: "trace ?c = [Thrown (External ''ERR_SOCKET_BAD_PORT'')]"
    by (simp add: run_defs)
  have c2: "errorListeners (mainServer ?c) = [Wrap 0 MainServer ?neg]"
    by (simp add: run_defs)
  have p1: "trace ?p = [Reject 0 (External ''ERR_SOCKET_BAD_PORT'')]"
    by (simp add: run_defs)
  have p2: "\<not> listening ?p"
    by (simp add: run_defs)
  have p3: "errorListeners (mainServer ?p) = [ErrEventHandler 0 0]"
    by (simp add: run_defs)
  have q1: "listening ?q"
    by (simp add: run_defs)
  have r1: "trace ?r = [Reject 0 (External ''ERR_SOCKET_BAD_PORT''), ListenCall MainServer ?ok,
        LogInfo ''Server listening at http://127.0.0.1:3000'',
        Resolve 1 (Some ''http://127.0.0.1:3000'')]"
    by (simp add: run_defs)
  have r2: "\<not> listening ?r"
    by (simp add: run_defs)
  have r3: "srvAddress (mainServer ?r) = Some (Inet ''127.0.0.1'' 3000)"
    by (simp add: run_defs)
  show ?thesis using c1 c2 p1 p2 p3 q1 r1 r2 r3 by blast
qed

section \<open>Properties of the dual-stack binder\<close>

lemma bindSecondary_first:
  assumes "\<not> listening s" "m < length (counters s)" "counters s ! m = (b, d, ol)"
    "\<forall>t. rt t (SecondaryServer (length (secondaries s)))
           (secondaryOpts lo adr pp m (length (secondaries s))) = None"
  shows "bindSecondary rt m lo pp adr s =
     s\<lparr>counters := (counters s)[m := (b + 1, d, ol)],
        secondaries := secondaries s @
          [newServer\<lparr>upgradeListeners := [EmitUpgrade],
             errorListeners := [Wrap (nextClosure s) (SecondaryServer (length (secondaries s)))
                                  (secondaryOpts lo adr pp m (length (secondaries s)))],
             listeningListeners := [Wrap (nextClosure s) (SecondaryServer (length (secondaries s)))
                                  (secondaryOpts lo adr pp m (length (secondaries s)))]\<rparr>],
        mainServer := (mainServer s)
          \<lparr>unrefListeners := unrefListeners (mainServer s) @ [CloseSecondary (length (secondaries s))],
           closeListeners := closeListeners (mainServer s) @ [CloseSecondary (length (secondaries s))],
           errorListeners := errorListeners (mainServer s) @ [CloseSecondary (length (secondaries s))]\<rparr>,
        nextClosure := nextClosure s + 1,
        trace := trace s @ [ListenCall (SecondaryServer (length (secondaries s)))
                              (secondaryOpts lo adr pp m (length (secondaries s)))],
        listening := True\<rparr>"
  using assms
  by (simp add: bindSecondary_def Let_def updSrv_def listenCallback_def emitEffect_def
        newServer_def nth_append)

lemma bindSecondary_refused:
  assumes "listening s" "m < length (counters s)" "counters s ! m = (b, d, ol)" "d < b"
  shows "bindSecondary rt m lo pp adr s =
     s\<lparr>counters := (counters s)[m := (b + 1, d + 1, ol)],
        secondaries := secondaries s @ [newServer\<lparr>upgradeListeners := [EmitUpgrade]\<rparr>],
        mainServer := (mainServer s)
          \<lparr>unrefListeners := unrefListeners (mainServer s) @ [CloseSecondary (length (secondaries s))],
           closeListeners := closeListeners (mainServer s) @ [CloseSecondary (length (secondaries s))],
           errorListeners := errorListeners (mainServer s) @ [CloseSecondary (length (secondaries s))]\<rparr>\<rparr>"
  using assms
  by (simp add: bindSecondary_def Let_def updSrv_def listenCallback_def secondaryOpts_def
        callCb_def secondaryCb_def)


lemma bindSecondaries_refused:
  assumes "listening s" "\<not> crashed s" "m < length (counters s)" "counters s ! m = (b, d, ol)" "d < b"
  shows "bindSecondaries rt m lo pa pp addrs s =
     s\<lparr>counters := (counters s)[m := (b + length (filter (\<lambda>a. JStr a \<noteq> pa) addrs),
                                       d + length (filter (\<lambda>a. JStr a \<noteq> pa) addrs), ol)],
        secondaries := secondaries s @
           replicate (length (filter (\<lambda>a. JStr a \<noteq> pa) addrs))
             (newServer\<lparr>upgradeListeners := [EmitUpgrade]\<rparr>),
        mainServer := (mainServer s)
          \<lparr>unrefListeners := unrefListeners (mainServer s) @ map CloseSecondary
              [length (secondaries s) ..< length (secondaries s) + length (filter (\<lambda>a. JStr a \<noteq> pa) addrs)],
           closeListeners := closeListeners (mainServer s) @ map CloseSecondary
              [length (secondaries s) ..< length (secondaries s) + length (filter (\<lambda>a. JStr a \<noteq> pa) addrs)],
           errorListeners := errorListeners (mainServer s) @ map CloseSecondary
              [length (secondaries s) ..< length (secondaries s) + length (filter (\<lambda>a. JStr a \<noteq> pa) addrs)]\<rparr>\<rparr>"
  using assms
proof (induction addrs arbitrary: s b d)
  case Nil
  have "(counters s)[m := (b, d, ol)] = counters s"
    using Nil.prems(4) by (metis list_update_id)
  then show ?case by simp
next
  case (Cons a addrs)
  show ?case
  proof (cases "JStr a = pa")
    case True
    then show ?thesis using Cons.prems Cons.IH [OF Cons.prems] by simp
  next
    case False
    let ?s1 = "bindSecondary rt m lo pp a s"
    note eq = bindSecondary_refused [where rt = rt, OF Cons.prems(1,3,4,5), of lo pp a]
    have p: "listening ?s1" "\<not> crashed ?s1" "m < length (counters ?s1)"
      "counters ?s1 ! m = (b + 1, d + 1, ol)" "d + 1 < b + 1"
      unfolding eq using Cons.prems by simp_all
    have "bindSecondaries rt m lo pa pp (a # addrs) s = bindSecondaries rt m lo pa pp addrs ?s1"
      using False Cons.prems(2) by simp
    also note Cons.IH [OF p]
    finally show ?thesis
      unfolding eq using False
      by (simp add: upt_conv_Cons del: upt_Suc)
  qed
qed


lemma bindSecondaries_idle:
  assumes "\<not> listening s" "\<not> crashed s" "m < length (counters s)" "counters s ! m = (0, 0, ol)"
    and acc: "\<forall>t a1 rest. filter (\<lambda>a. JStr a \<noteq> pa) addrs = a1 # rest \<longrightarrow>
           rt t (SecondaryServer (length (secondaries s)))
             (secondaryOpts lo a1 pp m (length (secondaries s))) = None"
  shows "bindSecondaries rt m lo pa pp addrs s =
     (case filter (\<lambda>a. JStr a \<noteq> pa) addrs of
        [] \<Rightarrow> s
      | a1 # rest \<Rightarrow>
          s\<lparr>counters := (counters s)[m := (1 + length rest, length rest, ol)],
             secondaries := secondaries s @
               [newServer\<lparr>upgradeListeners := [EmitUpgrade],
                  errorListeners := [Wrap (nextClosure s) (SecondaryServer (length (secondaries s)))
                                       (secondaryOpts lo a1 pp m (length (secondaries s)))],
                  listeningListeners := [Wrap (nextClosure s) (SecondaryServer (length (secondaries s)))
                                       (secondaryOpts lo a1 pp m (length (secondaries s)))]\<rparr>]
               @ replicate (length rest) (newServer\<lparr>upgradeListeners := [EmitUpgrade]\<rparr>),
             mainServer := (mainServer s)
               \<lparr>unrefListeners := unrefListeners (mainServer s) @ map CloseSecondary
                   [length (secondaries s) ..< length (secondaries s) + 1 + length rest],
                closeListeners := closeListeners (mainServer s) @ map CloseSecondary
                   [length (secondaries s) ..< length (secondaries s) + 1 + length rest],
                errorListeners := errorListeners (mainServer s) @ map CloseSecondary
                   [length (secondaries s) ..< length (secondaries s) + 1 + length rest]\<rparr>,
             nextClosure := nextClosure s + 1,
             trace := trace s @ [ListenCall (SecondaryServer (length (secondaries s)))
                                   (secondaryOpts lo a1 pp m (length (secondaries s)))],
             listening := True\<rparr>)"
  using acc
proof (induction addrs)
  case Nil
  then show ?case by simp
next
  case (Cons a addrs)
  show ?case
  proof (cases "JStr a = pa")
    case True
    then show ?thesis using Cons.IH Cons.prems assms(2) by simp
  next
    case False
    let ?s1 = "bindSecondary rt m lo pp a s"
    have acc1: "\<forall>t. rt t (SecondaryServer (length (secondaries s)))
           (secondaryOpts lo a pp m (length (secondaries s))) = None"
      using Cons.prems False by simp
    note eq = bindSecondary_first [where rt = rt and lo = lo, OF assms(1,3,4) acc1]
    have p: "listening ?s1" "\<not> crashed ?s1" "m < length (counters ?s1)"
      "counters ?s1 ! m = (1, 0, ol)" "(0::nat) < 1"
      unfolding eq using assms by simp_all
    have "bindSecondaries rt m lo pa pp (a # addrs) s = bindSecondaries rt m lo pa pp addrs ?s1"
      using False assms(2) by simp
    also note bindSecondaries_refused [where rt = rt, OF p]
    finally show ?thesis
      unfolding eq using False
      by (simp add: upt_conv_Cons del: upt_Suc)
  qed
qed


lemma lookupCallback_failed:
  "lookupCallback rt (length (lookups s)) (Inl dnsErr) (multipleBindings lo ol s) =
     onListen ol (s\<lparr>listening := False,
                    lookups := lookups s @ [(readProp (host lo), lo, ol)],
                    trace := trace s @ [Lookup (readProp (host lo))]\<rparr>)"
  by (simp add: lookupCallback_def multipleBindings_def emitEffect_def)

lemma multipleBindings_eq:
  "multipleBindings lo ol s =
     s\<lparr>listening := False, lookups := lookups s @ [(readProp (host lo), lo, ol)],
        trace := trace s @ [Lookup (readProp (host lo))]\<rparr>"
  by (simp add: multipleBindings_def emitEffect_def)

lemma lookupCallback_none:
  assumes "srvAddress (mainServer s) = Some pa" "\<not> crashed s"
    "filter (\<lambda>a. JStr a \<noteq> addressOf pa) addresses = []"
  shows "lookupCallback rt (length (lookups s)) (Inr addresses) (multipleBindings lo ol s) =
     onListen ol (s\<lparr>listening := False,
                    lookups := lookups s @ [(readProp (host lo), lo, ol)],
                    trace := trace s @ [Lookup (readProp (host lo))],
                    counters := counters s @ [(0, 0, ol)]\<rparr>)"
proof -
  let ?s1 = "s\<lparr>listening := False, lookups := lookups s @ [(readProp (host lo), lo, ol)],
        trace := trace s @ [Lookup (readProp (host lo))], counters := counters s @ [(0, 0, ol)]\<rparr>"
  have p: "\<not> listening ?s1" "\<not> crashed ?s1" "length (counters s) < length (counters ?s1)"
    "counters ?s1 ! length (counters s) = (0, 0, ol)"
    using assms(2) by simp_all
  have b: "bindSecondaries rt (length (counters s)) lo (addressOf pa) (portOf pa) addresses ?s1 = ?s1"
    using bindSecondaries_idle [where rt = rt and lo = lo and pa = "addressOf pa" and pp = "portOf pa"
        and addrs = addresses, OF p] assms(3) by simp
  show ?thesis
    unfolding multipleBindings_eq lookupCallback_def
    using assms(1,2)
    by (simp add: Let_def b)
qed


lemma lookupCallback_some:
  assumes "srvAddress (mainServer s) = Some pa" "\<not> crashed s"
    "filter (\<lambda>a. JStr a \<noteq> addressOf pa) addresses = a1 # rest"
    and acc: "\<forall>t. rt t (SecondaryServer (length (secondaries s)))
           (secondaryOpts lo a1 (portOf pa) (length (counters s)) (length (secondaries s))) = None"
  shows "lookupCallback rt (length (lookups s)) (Inr addresses) (multipleBindings lo ol s) =
     s\<lparr>listening := True,
        lookups := lookups s @ [(readProp (host lo), lo, ol)],
        trace := trace s @ [Lookup (readProp (host lo)),
                   ListenCall (SecondaryServer (length (secondaries s)))
                     (secondaryOpts lo a1 (portOf pa) (length (counters s)) (length (secondaries s)))],
        counters := counters s @ [(1 + length rest, length rest, ol)],
        secondaries := secondaries s @
           [newServer\<lparr>upgradeListeners := [EmitUpgrade],
              errorListeners := [Wrap (nextClosure s) (SecondaryServer (length (secondaries s)))
                 (secondaryOpts lo a1 (portOf pa) (length (counters s)) (length (secondaries s)))],
              listeningListeners := [Wrap (nextClosure s) (SecondaryServer (length (secondaries s)))
                 (secondaryOpts lo a1 (portOf pa) (length (counters s)) (length (secondaries s)))]\<rparr>]
           @ replicate (length rest) (newServer\<lparr>upgradeListeners := [EmitUpgrade]\<rparr>),
        mainServer := (mainServer s)
           \<lparr>unrefListeners := unrefListeners (mainServer s) @ map CloseSecondary
               [length (secondaries s) ..< length (secondaries s) + 1 + length rest],
            closeListeners := closeListeners (mainServer s) @ map CloseSecondary
               [length (secondaries s) ..< length (secondaries s) + 1 + length rest],
            errorListeners := errorListeners (mainServer s) @ map CloseSecondary
               [length (secondaries s) ..< length (secondaries s) + 1 + length rest],
            unrefPatched := True\<rparr>,
        nextClosure := nextClosure s + 1\<rparr>"
proof -
  let ?s1 = "s\<lparr>listening := False, lookups := lookups s @ [(readProp (host lo), lo, ol)],
        trace := trace s @ [Lookup (readProp (host lo))], counters := counters s @ [(0, 0, ol)]\<rparr>"
  have p: "\<not> listening ?s1" "\<not> crashed ?s1" "length (counters s) < length (counters ?s1)"
    "counters ?s1 ! length (counters s) = (0, 0, ol)"
    using assms(2) by simp_all
  have acc': "\<forall>t a1' rest'. filter (\<lambda>a. JStr a \<noteq> addressOf pa) addresses = a1' # rest' \<longrightarrow>
           rt t (SecondaryServer (length (secondaries ?s1)))
             (secondaryOpts lo a1' (portOf pa) (length (counters s)) (length (secondaries ?s1))) = None"
    using acc assms(3) by simp
  note b = bindSecondaries_idle [where rt = rt and lo = lo and pa = "addressOf pa"
      and pp = "portOf pa" and addrs = addresses, OF p acc', unfolded assms(3) list.case]
  show ?thesis
    unfolding multipleBindings_eq lookupCallback_def
    using assms(1,2)
    by (simp add: Let_def b updSrv_def)
qed


lemma onListen_trace: "trace (onListen ol X) = trace X @ [completionOf ol]"
  by (cases ol)
     (auto simp: onListen_def callUser_def emitEffect_def throwTypeError_def settleReturned_def
        Let_def split: jsval.splits)

lemma onListen_listening:
  "completionOf ol \<noteq> Throw \<Longrightarrow> listening (onListen ol X)"
  by (cases ol)
     (auto simp: onListen_def callUser_def emitEffect_def throwTypeError_def settleReturned_def
        Let_def split: jsval.splits)

lemma onListen_bindings: "kServerBindings (onListen ol X) = kServerBindings X"
  by (cases ol)
     (auto simp: onListen_def callUser_def emitEffect_def throwTypeError_def settleReturned_def
        Let_def split: jsval.splits)

lemma onListen_secondaries: "secondaries (onListen ol X) = secondaries X"
  by (cases ol)
     (auto simp: onListen_def callUser_def emitEffect_def throwTypeError_def settleReturned_def
        Let_def split: jsval.splits)

lemma secondary_bind_failed:
  assumes "k < length (secondaries S)"
    "errorListeners (secondaries S ! k) = [Wrap n (SecondaryServer k) lo']"
    "cb lo' = Some (SecondaryCb m k)" "m < length (counters S)"
    "counters S ! m = (Suc d, d, ol)" "\<not> crashed S"
  shows "bindFailed (SecondaryServer k) e S =
     onListen ol (S\<lparr>secondaries := (secondaries S)[k := (secondaries S ! k)\<lparr>errorListeners := []\<rparr>],
                    listening := False,
                    counters := (counters S)[m := (Suc d, Suc d, ol)]\<rparr>)"
  using assms
  by (simp add: bindFailed_def emitError_def getSrv_def updSrv_def Let_def runAll_single
        wrap_def removeListener_def callCb_def secondaryCb_def)

lemma logServerAddress_bound:
  "\<exists>adr line. logServerAddress ko (Some a) r = Some (adr, line)"
  by (cases a) (auto simp: logServerAddress_def Let_def)

lemma secondary_bind_succeeded:
  assumes "k < length (secondaries S)"
    "listeningListeners (secondaries S ! k) = [Wrap n (SecondaryServer k) lo']"
    "cb lo' = Some (SecondaryCb m k)" "m < length (counters S)"
    "counters S ! m = (Suc d, d, ol)" "\<not> crashed S"
    "logServerAddress (kOptions S) (Some a) (resolverOf lo') = Some (adr, line)"
  shows "bindSucceeded (SecondaryServer k) a S =
     onListen ol
       (S\<lparr>secondaries := (secondaries S)
              [k := (secondaries S ! k)
                 \<lparr>srvAddress := Some a, listeningListeners := [],
                  errorListeners := removeListener n (errorListeners (secondaries S ! k))\<rparr>],
          trace := trace S @ [LogInfo line],
          counters := (counters S)[m := (Suc d, Suc d, ol)],
          kServerBindings := kServerBindings S @ [k]\<rparr>)"
  using assms
  by (simp add: bindSucceeded_def emitListening_def getSrv_def updSrv_def Let_def runAll_single
        wrap_def callCb_def secondaryCb_def emitEffect_def)


lemma bindFailed_no_listener:
  "errorListeners (getSrv X sv) = [] \<Longrightarrow> trace (bindFailed sv e X) = trace X @ [Unhandled e]"
  by (simp add: bindFailed_def emitError_def emitEffect_def)

lemma after_lookup:
  fixes lo :: bind_target and ol :: onlisten
  assumes "srvAddress (mainServer s) = Some pa" "\<not> crashed s"
    "filter (\<lambda>x. JStr x \<noteq> addressOf pa) addresses = a1 # rest"
    "\<forall>t. rt t (SecondaryServer (length (secondaries s)))
           (secondaryOpts lo a1 (portOf pa) (length (counters s)) (length (secondaries s))) = None"
  defines "S \<equiv> lookupCallback rt (length (lookups s)) (Inr addresses) (multipleBindings lo ol s)"
  defines "so \<equiv> secondaryOpts lo a1 (portOf pa) (length (counters s)) (length (secondaries s))"
  shows "trace S = trace s @ [Lookup (readProp (host lo)),
                              ListenCall (SecondaryServer (length (secondaries s))) so]"
    and "length (secondaries s) < length (secondaries S)"
    and "length (secondaries S) = length (secondaries s) + Suc (length rest)"
    and "errorListeners (secondaries S ! length (secondaries s))
           = [Wrap (nextClosure s) (SecondaryServer (length (secondaries s))) so]"
    and "listeningListeners (secondaries S ! length (secondaries s))
           = [Wrap (nextClosure s) (SecondaryServer (length (secondaries s))) so]"
    and "cb so = Some (SecondaryCb (length (counters s)) (length (secondaries s)))"
    and "length (counters s) < length (counters S)"
    and "counters S ! length (counters s) = (Suc (length rest), length rest, ol)"
    and "\<not> crashed S" and "listening S"
    and "kServerBindings S = kServerBindings s"
    and "unrefPatched (mainServer S)"
    and "closeListeners (mainServer S) = closeListeners (mainServer s) @ map CloseSecondary
               [length (secondaries s) ..< length (secondaries s) + Suc (length rest)]"
    and "unrefListeners (mainServer S) = unrefListeners (mainServer s) @ map CloseSecondary
               [length (secondaries s) ..< length (secondaries s) + Suc (length rest)]"
    and "errorListeners (mainServer S) = errorListeners (mainServer s) @ map CloseSecondary
               [length (secondaries s) ..< length (secondaries s) + Suc (length rest)]"
  unfolding S_def so_def lookupCallback_some [where rt = rt and lo = lo, OF assms(1,2,3,4)]
  using assms(2)
  by (simp_all add: nth_append secondaryOpts_def)


lemma secondary_failed_trace:
  fixes lo :: bind_target and ol :: onlisten and e :: error
  assumes "srvAddress (mainServer s) = Some pa" "\<not> crashed s"
    "differing pa addresses = a1 # rest"
    "\<forall>t. rt t (SecondaryServer (length (secondaries s)))
           (secondaryOpts lo a1 (portOf pa) (length (counters s)) (length (secondaries s))) = None"
  defines "S \<equiv> dualStack rt lo ol addresses s"
  defines "T \<equiv> bindFailed (SecondaryServer (length (secondaries s))) e (dualStack rt lo ol addresses s)"
  shows "trace T = trace S @ [completionOf ol]"
    and "kServerBindings T = kServerBindings s"
    and "completionOf ol \<noteq> Throw \<Longrightarrow> listening T"
    and "trace (bindFailed (SecondaryServer (length (secondaries s))) e' T) = trace T @ [Unhandled e']"
proof -
  note a = assms(3) [unfolded differing_def]
  note al = after_lookup [where rt = rt and lo = lo, OF assms(1,2) a assms(4)]
  note eq = secondary_bind_failed [OF al(2,4,6,7,8,9), of e]
  have T: "T = onListen ol
     ((lookupCallback rt (length (lookups s)) (Inr addresses) (multipleBindings lo ol s))
       \<lparr>secondaries :=
          (secondaries (lookupCallback rt (length (lookups s)) (Inr addresses) (multipleBindings lo ol s)))
          [length (secondaries s) :=
             (secondaries (lookupCallback rt (length (lookups s)) (Inr addresses) (multipleBindings lo ol s))
               ! length (secondaries s))\<lparr>errorListeners := []\<rparr>],
        listening := False,
        counters :=
          (counters (lookupCallback rt (length (lookups s)) (Inr addresses) (multipleBindings lo ol s)))
          [length (counters s) := (Suc (length rest), Suc (length rest), ol)]\<rparr>)"
    unfolding T_def dualStack_def eq ..
  show "trace T = trace S @ [completionOf ol]"
    unfolding T S_def dualStack_def by (simp add: onListen_trace)
  show "kServerBindings T = kServerBindings s"
    unfolding T by (simp add: onListen_bindings al(11))
  show "completionOf ol \<noteq> Throw \<Longrightarrow> listening T"
    unfolding T by (rule onListen_listening)
  have "errorListeners (getSrv T (SecondaryServer (length (secondaries s)))) = []"
    unfolding T using al(2) by (simp add: getSrv_def onListen_secondaries)
  then show "trace (bindFailed (SecondaryServer (length (secondaries s))) e' T) = trace T @ [Unhandled e']"
    by (rule bindFailed_no_listener)
qed

lemma secondary_succeeded_trace:
  fixes lo :: bind_target and ol :: onlisten and a :: bound_address
  assumes "srvAddress (mainServer s) = Some pa" "\<not> crashed s"
    "differing pa addresses = a1 # rest"
    "\<forall>t. rt t (SecondaryServer (length (secondaries s)))
           (secondaryOpts lo a1 (portOf pa) (length (counters s)) (length (secondaries s))) = None"
  defines "S \<equiv> dualStack rt lo ol addresses s"
  defines "T \<equiv> bindSucceeded (SecondaryServer (length (secondaries s))) a (dualStack rt lo ol addresses s)"
  shows "\<exists>line. trace T = trace S @ [LogInfo line, completionOf ol]"
    and "kServerBindings T = kServerBindings s @ [length (secondaries s)]"
    and "completionOf ol \<noteq> Throw \<Longrightarrow> listening T"
proof -
  note a = assms(3) [unfolded differing_def]
  note al = after_lookup [where rt = rt and lo = lo, OF assms(1,2) a assms(4)]
  let ?so = "secondaryOpts lo a1 (portOf pa) (length (counters s)) (length (secondaries s))"
  obtain adr line where l: "logServerAddress
       (kOptions (lookupCallback rt (length (lookups s)) (Inr addresses) (multipleBindings lo ol s)))
       (Some a) (resolverOf ?so) = Some (adr, line)"
    using logServerAddress_bound by blast
  note eq = secondary_bind_succeeded [OF al(2,5,6,7,8,9) l]
  have t: "trace T = trace S @ [LogInfo line, completionOf ol]"
    unfolding T_def S_def dualStack_def eq by (simp add: onListen_trace)
  then show "\<exists>line. trace T = trace S @ [LogInfo line, completionOf ol]" by blast
  show "kServerBindings T = kServerBindings s @ [length (secondaries s)]"
    unfolding T_def dualStack_def eq by (simp add: onListen_bindings al(11))
  show "completionOf ol \<noteq> Throw \<Longrightarrow> listening T"
    unfolding T_def dualStack_def eq by (rule onListen_listening)
qed


lemma dualStack_none:
  assumes "srvAddress (mainServer s) = Some pa" "\<not> crashed s" "differing pa addresses = []"
  shows "trace (dualStack rt lo ol addresses s) = trace s @ [Lookup (readProp (host lo)), completionOf ol]"
    and "secondaries (dualStack rt lo ol addresses s) = secondaries s"
    and "kServerBindings (dualStack rt lo ol addresses s) = kServerBindings s"
    and "completionOf ol \<noteq> Throw \<Longrightarrow> listening (dualStack rt lo ol addresses s)"
  unfolding dualStack_def lookupCallback_none [OF assms(1,2) assms(3) [unfolded differing_def]]
  by (simp_all add: onListen_trace onListen_secondaries onListen_bindings onListen_listening)

lemma dualStack_some:
  assumes "srvAddress (mainServer s) = Some pa" "\<not> crashed s" "differing pa addresses \<noteq> []"
    "\<forall>t. rt t (SecondaryServer (length (secondaries s)))
           (secondaryOpts lo (hd (differing pa addresses)) (portOf pa) (length (counters s))
              (length (secondaries s))) = None"
  shows "trace (dualStack rt lo ol addresses s) =
           trace s @ [Lookup (readProp (host lo)),
                      ListenCall (SecondaryServer (length (secondaries s)))
                        (secondaryOpts lo (hd (differing pa addresses)) (portOf pa)
                           (length (counters s)) (length (secondaries s)))]"
    and "counters (dualStack rt lo ol addresses s) ! length (counters s) =
           (length (differing pa addresses), length (differing pa addresses) - 1, ol)"
    and "length (secondaries (dualStack rt lo ol addresses s)) =
           length (secondaries s) + length (differing pa addresses)"
    and "kServerBindings (dualStack rt lo ol addresses s) = kServerBindings s"
proof -
  obtain a1 rest where d: "differing pa addresses = a1 # rest"
    using assms(3) by (cases "differing pa addresses") auto
  have acc: "\<forall>t. rt t (SecondaryServer (length (secondaries s)))
           (secondaryOpts lo a1 (portOf pa) (length (counters s)) (length (secondaries s))) = None"
    using assms(4) d by simp
  note al = after_lookup [where rt = rt and lo = lo, OF assms(1,2) d [unfolded differing_def] acc]
  show "trace (dualStack rt lo ol addresses s) =
           trace s @ [Lookup (readProp (host lo)),
                      ListenCall (SecondaryServer (length (secondaries s)))
                        (secondaryOpts lo (hd (differing pa addresses)) (portOf pa)
                           (length (counters s)) (length (secondaries s)))]"
    unfolding dualStack_def d using al(1) by simp
  show "counters (dualStack rt lo ol addresses s) ! length (counters s) =
           (length (differing pa addresses), length (differing pa addresses) - 1, ol)"
    unfolding dualStack_def d using al(8) by simp
  show "length (secondaries (dualStack rt lo ol addresses s)) =
           length (secondaries s) + length (differing pa addresses)"
    unfolding dualStack_def d using al(3) by simp
  show "kServerBindings (dualStack rt lo ol addresses s) = kServerBindings s"
    unfolding dualStack_def using al(11) by simp
qed

text \<open>
  The reconciliation that runs alone: \<^verbatim>\<open>multipleBindings\<close> followed at once by its lookup
  callback, on an instance whose primary is bound, \<^verbatim>\<open>server.listen\<close> accepting the call
  made for the first differing address. When no resolved address differs from the
  primary's, the completion (\<^verbatim>\<open>onListen\<close>) has run once and no server was made or bound.
  Otherwise it has not run when the lookup callback returns: one secondary bind is in
  flight (the first differing address; the attempts for the further ones have completed
  at once, refused by the guard, and are counted in \<^verbatim>\<open>binded\<close>), and the completion runs
  once when that bind completes, with success or with failure; a later error of that
  secondary does not run it again.
\<close>

lemma completion_once_undisturbed:
  assumes "srvAddress (mainServer s) = Some pa" "\<not> crashed s"
    and acc: "\<forall>t. rt t (SecondaryServer (length (secondaries s)))
           (secondaryOpts lo (hd (differing pa addresses)) (portOf pa) (length (counters s))
              (length (secondaries s))) = None"
  shows "(differing pa addresses = [] \<longrightarrow>
            trace (dualStack rt lo ol addresses s)
              = trace s @ [Lookup (readProp (host lo)), completionOf ol]
          \<and> secondaries (dualStack rt lo ol addresses s) = secondaries s)
       \<and> (differing pa addresses \<noteq> [] \<longrightarrow>
            trace (dualStack rt lo ol addresses s)
              = trace s @ [Lookup (readProp (host lo)),
                           ListenCall (SecondaryServer (length (secondaries s)))
                             (secondaryOpts lo (hd (differing pa addresses)) (portOf pa)
                                (length (counters s)) (length (secondaries s)))]
          \<and> counters (dualStack rt lo ol addresses s) ! length (counters s)
              = (length (differing pa addresses), length (differing pa addresses) - 1, ol)
          \<and> trace (bindFailed (SecondaryServer (length (secondaries s))) e
                      (dualStack rt lo ol addresses s))
              = trace (dualStack rt lo ol addresses s) @ [completionOf ol]
          \<and> trace (bindFailed (SecondaryServer (length (secondaries s))) e'
                      (bindFailed (SecondaryServer (length (secondaries s))) e
                         (dualStack rt lo ol addresses s)))
              = trace (dualStack rt lo ol addresses s) @ [completionOf ol, Unhandled e']
          \<and> (\<exists>line. trace (bindSucceeded (SecondaryServer (length (secondaries s))) a
                               (dualStack rt lo ol addresses s))
                = trace (dualStack rt lo ol addresses s) @ [LogInfo line, completionOf ol]))"
proof (intro conjI impI)
  assume d: "differing pa addresses = []"
  show "trace (dualStack rt lo ol addresses s) = trace s @ [Lookup (readProp (host lo)), completionOf ol]"
    by (rule dualStack_none(1) [OF assms(1,2) d])
  show "secondaries (dualStack rt lo ol addresses s) = secondaries s"
    by (rule dualStack_none(2) [OF assms(1,2) d])
next
  assume d: "differing pa addresses \<noteq> []"
  then obtain a1 rest where d': "differing pa addresses = a1 # rest"
    by (cases "differing pa addresses") auto
  have acc': "\<forall>t. rt t (SecondaryServer (length (secondaries s)))
           (secondaryOpts lo a1 (portOf pa) (length (counters s)) (length (secondaries s))) = None"
    using acc d' by simp
  show "trace (dualStack rt lo ol addresses s)
              = trace s @ [Lookup (readProp (host lo)),
                           ListenCall (SecondaryServer (length (secondaries s)))
                             (secondaryOpts lo (hd (differing pa addresses)) (portOf pa)
                                (length (counters s)) (length (secondaries s)))]"
    by (rule dualStack_some(1) [where rt = rt and lo = lo, OF assms(1,2) d acc])
  show "counters (dualStack rt lo ol addresses s) ! length (counters s)
              = (length (differing pa addresses), length (differing pa addresses) - 1, ol)"
    by (rule dualStack_some(2) [where rt = rt and lo = lo, OF assms(1,2) d acc])
  show f: "trace (bindFailed (SecondaryServer (length (secondaries s))) e
                      (dualStack rt lo ol addresses s))
              = trace (dualStack rt lo ol addresses s) @ [completionOf ol]"
    by (rule secondary_failed_trace(1) [where rt = rt and lo = lo, OF assms(1,2) d' acc'])
  show "trace (bindFailed (SecondaryServer (length (secondaries s))) e'
                      (bindFailed (SecondaryServer (length (secondaries s))) e
                         (dualStack rt lo ol addresses s)))
              = trace (dualStack rt lo ol addresses s) @ [completionOf ol, Unhandled e']"
    by (simp add: secondary_failed_trace(4) [where rt = rt and lo = lo, OF assms(1,2) d' acc'] f)
  show "\<exists>line. trace (bindSucceeded (SecondaryServer (length (secondaries s))) a
                               (dualStack rt lo ol addresses s))
                = trace (dualStack rt lo ol addresses s) @ [LogInfo line, completionOf ol]"
    by (rule secondary_succeeded_trace(1) [where rt = rt and lo = lo, OF assms(1,2) d' acc'])
qed

lemmas dual_defs = lookupCallback_def bindSecondaries.simps bindSecondary_def secondaryCb_def
  onListen_def secondaryOpts_def addressOf.simps portOf.simps handleError.simps
  handleListening.simps isOnce.simps nth_append

text \<open>
  C3. The completion of one reconciliation can run twice. A run from a new instance: a
  listen on \<^verbatim>\<open>localhost\<close> with callback 5 whose bind fails by the \<^verbatim>\<open>'error'\<close> event (its
  \<^verbatim>\<open>wrap\<close> stays registered for \<^verbatim>\<open>'listening'\<close>), then a listen on \<^verbatim>\<open>localhost\<close> with
  callback 6 whose bind succeeds at 127.0.0.1:3000. The \<^verbatim>\<open>'listening'\<close> event runs both
  \<^verbatim>\<open>wrap\<close>s, and each starts \<^verbatim>\<open>multipleBindings\<close>. The resolver returns three addresses,
  two of which differ from the primary's. The first lookup callback binds a secondary to
  \<^verbatim>\<open>::1\<close>, which sets the flag. The second lookup callback, that of callback 6, finds the
  flag set: both of its attempts are refused by the guard of \<^verbatim>\<open>listenCallback\<close>, inside
  the loop, and \<^verbatim>\<open>binded === binding\<close> holds after each of them (1 of 1, then 2 of 2), so
  callback 6 is called twice, and while the bind of the secondary is still in flight.
\<close>

theorem completion_twice_with_two_reconciliations:
  "trace (lookupCallback accepting 1 (Inr [''127.0.0.1'', ''::1'', ''fe80::1''])
     (lookupCallback accepting 0 (Inr [''127.0.0.1'', ''::1'', ''fe80::1''])
       (bindSucceeded MainServer (Inet ''127.0.0.1'' 3000)
         (listenThenReady accepting
            \<lparr>port = Some (JNum (Fin 3000)), host = Some (JStr ''localhost''), path = None,
             backlog = None, listenTextResolver = None, cb = Some (UserCb 6)\<rparr> (JFunction 6) None
            (bindFailed MainServer (External ''EADDRINUSE'')
              (listenThenReady accepting
                 \<lparr>port = Some (JNum (Fin 3000)), host = Some (JStr ''localhost''), path = None,
                  backlog = None, listenTextResolver = None, cb = Some (UserCb 5)\<rparr> (JFunction 5) None
                 (createServer \<lparr>serverFactory = JUndefined, http2 = JUndefined, https = None\<rparr>)))))))
   = [ListenCall MainServer
        \<lparr>port = Some (JNum (Fin 3000)), host = Some (JStr ''localhost''), path = None,
         backlog = None, listenTextResolver = None,
         cb = Some (LocalhostCb (JFunction 5)
                \<lparr>port = Some (JNum (Fin 3000)), host = Some (JStr ''localhost''), path = None,
                 backlog = None, listenTextResolver = None\<rparr>)\<rparr>,
      CallUser 5 (Some (External ''EADDRINUSE'')) None,
      ListenCall MainServer
        \<lparr>port = Some (JNum (Fin 3000)), host = Some (JStr ''localhost''), path = None,
         backlog = None, listenTextResolver = None,
         cb = Some (LocalhostCb (JFunction 6)
                \<lparr>port = Some (JNum (Fin 3000)), host = Some (JStr ''localhost''), path = None,
                 backlog = None, listenTextResolver = None\<rparr>)\<rparr>,
      LogInfo ''Server listening at http://127.0.0.1:3000'',
      Lookup (JStr ''localhost''),
      LogInfo ''Server listening at http://127.0.0.1:3000'',
      Lookup (JStr ''localhost''),
      ListenCall (SecondaryServer 0)
        \<lparr>port = Some (JNum (Fin 3000)), host = Some (JStr ''::1''), path = None,
         backlog = None, listenTextResolver = None, cb = Some (SecondaryCb 0 0)\<rparr>,
      CallUser 6 None (Some ''http://127.0.0.1:3000''),
      CallUser 6 None (Some ''http://127.0.0.1:3000'')]
   \<and> counters (lookupCallback accepting 1 (Inr [''127.0.0.1'', ''::1'', ''fe80::1''])
     (lookupCallback accepting 0 (Inr [''127.0.0.1'', ''::1'', ''fe80::1''])
       (bindSucceeded MainServer (Inet ''127.0.0.1'' 3000)
         (listenThenReady accepting
            \<lparr>port = Some (JNum (Fin 3000)), host = Some (JStr ''localhost''), path = None,
             backlog = None, listenTextResolver = None, cb = Some (UserCb 6)\<rparr> (JFunction 6) None
            (bindFailed MainServer (External ''EADDRINUSE'')
              (listenThenReady accepting
                 \<lparr>port = Some (JNum (Fin 3000)), host = Some (JStr ''localhost''), path = None,
                  backlog = None, listenTextResolver = None, cb = Some (UserCb 5)\<rparr> (JFunction 5) None
                 (createServer \<lparr>serverFactory = JUndefined, http2 = JUndefined, https = None\<rparr>)))))))
   = [(2, 1, OnListenCb (JFunction 5) (Some ''http://127.0.0.1:3000'')),
      (2, 2, OnListenCb (JFunction 6) (Some ''http://127.0.0.1:3000''))]"
  by (simp add: run_defs dual_defs)

text \<open>
  C4. Failures inside the dual-stack step do not fail the listen operation. When the
  lookup fails, the completion runs at once (the caller's callback with no error and the
  primary's address, or the promise resolved with it), no secondary exists and the
  tracked bindings are unchanged. When the bind of a secondary fails (the bind that
  \<^verbatim>\<open>server.listen\<close> accepted and started), the completion runs all the same, the flag
  ends true, and the secondary is not among the tracked bindings; when it succeeds, it
  is.
\<close>

theorem dual_stack_failures_absorbed:
  assumes "srvAddress (mainServer s) = Some pa" "\<not> crashed s" "completionOf ol \<noteq> Throw"
  shows "trace (lookupCallback rt (length (lookups s)) (Inl dnsErr) (multipleBindings lo ol s))
           = trace s @ [Lookup (readProp (host lo)), completionOf ol]
       \<and> listening (lookupCallback rt (length (lookups s)) (Inl dnsErr) (multipleBindings lo ol s))
       \<and> secondaries (lookupCallback rt (length (lookups s)) (Inl dnsErr) (multipleBindings lo ol s))
           = secondaries s
       \<and> kServerBindings (lookupCallback rt (length (lookups s)) (Inl dnsErr) (multipleBindings lo ol s))
           = kServerBindings s
       \<and> (differing pa addresses \<noteq> []
            \<and> (\<forall>t. rt t (SecondaryServer (length (secondaries s)))
                   (secondaryOpts lo (hd (differing pa addresses)) (portOf pa)
                      (length (counters s)) (length (secondaries s))) = None) \<longrightarrow>
             trace (bindFailed (SecondaryServer (length (secondaries s))) e
                      (dualStack rt lo ol addresses s))
               = trace (dualStack rt lo ol addresses s) @ [completionOf ol]
           \<and> listening (bindFailed (SecondaryServer (length (secondaries s))) e
                      (dualStack rt lo ol addresses s))
           \<and> kServerBindings (bindFailed (SecondaryServer (length (secondaries s))) e
                      (dualStack rt lo ol addresses s))
               = kServerBindings s
           \<and> kServerBindings (bindSucceeded (SecondaryServer (length (secondaries s))) a
                      (dualStack rt lo ol addresses s))
               = kServerBindings s @ [length (secondaries s)])"
proof (intro conjI impI)
  note eq = lookupCallback_failed [of rt s dnsErr lo ol]
  show "trace (lookupCallback rt (length (lookups s)) (Inl dnsErr) (multipleBindings lo ol s))
           = trace s @ [Lookup (readProp (host lo)), completionOf ol]"
    unfolding eq by (simp add: onListen_trace)
  show "listening (lookupCallback rt (length (lookups s)) (Inl dnsErr) (multipleBindings lo ol s))"
    unfolding eq by (rule onListen_listening [OF assms(3)])
  show "secondaries (lookupCallback rt (length (lookups s)) (Inl dnsErr) (multipleBindings lo ol s))
           = secondaries s"
    unfolding eq by (simp add: onListen_secondaries)
  show "kServerBindings (lookupCallback rt (length (lookups s)) (Inl dnsErr) (multipleBindings lo ol s))
           = kServerBindings s"
    unfolding eq by (simp add: onListen_bindings)
next
  assume h: "differing pa addresses \<noteq> []
            \<and> (\<forall>t. rt t (SecondaryServer (length (secondaries s)))
                   (secondaryOpts lo (hd (differing pa addresses)) (portOf pa)
                      (length (counters s)) (length (secondaries s))) = None)"
  then obtain a1 rest where d: "differing pa addresses = a1 # rest"
    by (cases "differing pa addresses") auto
  have acc: "\<forall>t. rt t (SecondaryServer (length (secondaries s)))
           (secondaryOpts lo a1 (portOf pa) (length (counters s)) (length (secondaries s))) = None"
    using h d by simp
  show "trace (bindFailed (SecondaryServer (length (secondaries s))) e (dualStack rt lo ol addresses s))
               = trace (dualStack rt lo ol addresses s) @ [completionOf ol]"
    by (rule secondary_failed_trace(1) [where rt = rt and lo = lo, OF assms(1,2) d acc])
  show "listening (bindFailed (SecondaryServer (length (secondaries s))) e (dualStack rt lo ol addresses s))"
    by (rule secondary_failed_trace(3) [where rt = rt and lo = lo, OF assms(1,2) d acc assms(3)])
  show "kServerBindings (bindFailed (SecondaryServer (length (secondaries s))) e
                      (dualStack rt lo ol addresses s)) = kServerBindings s"
    by (rule secondary_failed_trace(2) [where rt = rt and lo = lo, OF assms(1,2) d acc])
  show "kServerBindings (bindSucceeded (SecondaryServer (length (secondaries s))) a
                      (dualStack rt lo ol addresses s))
               = kServerBindings s @ [length (secondaries s)]"
    by (rule secondary_succeeded_trace(2) [where rt = rt and lo = lo, OF assms(1,2) d acc])
qed

theorem dual_stack_failures_absorbed_witness:
  "srvAddress (mainServer
      ((createServer \<lparr>serverFactory = JUndefined, http2 = JUndefined, https = None\<rparr>)
         \<lparr>mainServer := newServer\<lparr>srvAddress := Some (Inet ''127.0.0.1'' 3000)\<rparr>\<rparr>))
     = Some (Inet ''127.0.0.1'' 3000)
   \<and> \<not> crashed ((createServer \<lparr>serverFactory = JUndefined, http2 = JUndefined, https = None\<rparr>)
         \<lparr>mainServer := newServer\<lparr>srvAddress := Some (Inet ''127.0.0.1'' 3000)\<rparr>\<rparr>)
   \<and> completionOf (OnListenCb (JFunction 5) (Some ''http://127.0.0.1:3000'')) \<noteq> Throw
   \<and> differing (Inet ''127.0.0.1'' 3000) [''::1'', ''127.0.0.1''] \<noteq> []
   \<and> (\<forall>t. accepting t (SecondaryServer 0)
          \<lparr>port = Some (JNum (Fin 3000)), host = Some (JStr ''::1''), path = None,
           backlog = None, listenTextResolver = None, cb = Some (SecondaryCb 0 0)\<rparr> = None)
   \<and> trace (lookupCallback accepting 0 (Inl (External ''ENOTFOUND''))
        (multipleBindings
           \<lparr>port = Some (JNum (Fin 3000)), host = Some (JStr ''localhost''), path = None,
            backlog = None, listenTextResolver = None\<rparr>
           (OnListenCb (JFunction 5) (Some ''http://127.0.0.1:3000''))
           ((createServer \<lparr>serverFactory = JUndefined, http2 = JUndefined, https = None\<rparr>)
              \<lparr>mainServer := newServer\<lparr>srvAddress := Some (Inet ''127.0.0.1'' 3000)\<rparr>\<rparr>)))
     = [Lookup (JStr ''localhost''), CallUser 5 None (Some ''http://127.0.0.1:3000'')]
   \<and> kServerBindings (bindFailed (SecondaryServer 0) (External ''EADDRNOTAVAIL'')
        (dualStack accepting
           \<lparr>port = Some (JNum (Fin 3000)), host = Some (JStr ''localhost''), path = None,
            backlog = None, listenTextResolver = None\<rparr>
           (OnListenCb (JFunction 5) (Some ''http://127.0.0.1:3000''))
           [''::1'', ''127.0.0.1'']
           ((createServer \<lparr>serverFactory = JUndefined, http2 = JUndefined, https = None\<rparr>)
              \<lparr>mainServer := newServer\<lparr>srvAddress := Some (Inet ''127.0.0.1'' 3000)\<rparr>\<rparr>)))
     = []"
proof -
  let ?s = "(createServer \<lparr>serverFactory = JUndefined, http2 = JUndefined, https = None\<rparr>)
         \<lparr>mainServer := newServer\<lparr>srvAddress := Some (Inet ''127.0.0.1'' 3000)\<rparr>\<rparr>"
  let ?lo = "\<lparr>port = Some (JNum (Fin 3000)), host = Some (JStr ''localhost''), path = None,
            backlog = None, listenTextResolver = None\<rparr>"
  let ?ol = "OnListenCb (JFunction 5) (Some ''http://127.0.0.1:3000'')"
  let ?as = "[''::1'', ''127.0.0.1'']"
  have h1: "srvAddress (mainServer ?s) = Some (Inet ''127.0.0.1'' 3000)" by simp
  have h2: "\<not> crashed ?s" by (simp add: createServer_def)
  have h3: "completionOf ?ol \<noteq> Throw" by simp
  have d: "differing (Inet ''127.0.0.1'' 3000) ?as \<noteq> []" by (simp add: differing_def)
  have z: "trace ?s = []" "secondaries ?s = []" "lookups ?s = []" "kServerBindings ?s = []"
    by (simp_all add: createServer_def)
  have acc: "\<forall>t. accepting t (SecondaryServer 0)
          \<lparr>port = Some (JNum (Fin 3000)), host = Some (JStr ''::1''), path = None,
           backlog = None, listenTextResolver = None, cb = Some (SecondaryCb 0 0)\<rparr> = None"
    by (simp add: accepting_def)
  have acc': "\<forall>t. accepting t (SecondaryServer (length (secondaries ?s)))
                   (secondaryOpts ?lo (hd (differing (Inet ''127.0.0.1'' 3000) ?as))
                      (portOf (Inet ''127.0.0.1'' 3000))
                      (length (counters ?s)) (length (secondaries ?s))) = None"
    by (simp add: accepting_def)
  note th = dual_stack_failures_absorbed [where rt = accepting and s = ?s and lo = ?lo
      and addresses = ?as and dnsErr = "External ''ENOTFOUND''"
      and e = "External ''EADDRNOTAVAIL''" and a = "Inet ''::1'' 3000", OF h1 h2 h3]
  from th have a: "trace (lookupCallback accepting (length (lookups ?s)) (Inl (External ''ENOTFOUND''))
         (multipleBindings ?lo ?ol ?s))
           = trace ?s @ [Lookup (readProp (host ?lo)), completionOf ?ol]"
    by blast
  from th d acc' have b: "kServerBindings (bindFailed (SecondaryServer (length (secondaries ?s)))
         (External ''EADDRNOTAVAIL'') (dualStack accepting ?lo ?ol ?as ?s)) = kServerBindings ?s"
    by blast
  have a': "trace (lookupCallback accepting 0 (Inl (External ''ENOTFOUND'')) (multipleBindings ?lo ?ol ?s))
     = [Lookup (JStr ''localhost''), CallUser 5 None (Some ''http://127.0.0.1:3000'')]"
    using a by (simp add: z readProp_def)
  have b': "kServerBindings (bindFailed (SecondaryServer 0) (External ''EADDRNOTAVAIL'')
        (dualStack accepting ?lo ?ol ?as ?s)) = []"
    using b by (simp add: z)
  show ?thesis using h1 h2 h3 d acc a' b' by blast
qed

section \<open>Listening on a path\<close>











end
